theory Spec2Isabelle
  imports Complex_Main "HOL-Library.Word"
begin

section \<open>Shard engine of the workflow service: shared data\<close>

text \<open>
  The engine (\<^verbatim>\<open>historyEngineImpl\<close>) is modelled function by function. Go's
  \<^verbatim>\<open>int32\<close> request fields are \<open>32 word\<close> read with \<open>sint\<close>; event ids, versions
  and durations (\<^verbatim>\<open>int64\<close>) are \<open>int\<close> where the code only compares them. An
  \<^verbatim>\<open>error\<close> return is the left summand of a sum type. Collaborators of the engine
  whose code is outside the engine file (stores, caches, the mutable-state builder) enter
  each function as an environment record that fixes what every call of theirs returns.
\<close>

type_synonym int32 = "32 word"
type_synonym bytes = "8 word list"

text \<open>\<^verbatim>\<open>persistence.WorkflowExecutionAlreadyStartedError\<close>, as the engine reads it.\<close>

record AlreadyStartedInfo =
  asStartRequestID :: string
  asRunID :: string
  asState :: int
  asCloseStatus :: int
  asLastWriteVersion :: int

datatype error =
    BadRequestError string
  | YarpcDeadlineExceeded
  | InternalServiceError string
  | WorkflowExecutionAlreadyStartedError string string string
  | PersistenceAlreadyStarted AlreadyStartedInfo
  | DomainNotActiveError string int
  | EntityNotExistsError string
  | CurrentBranchChangedError string bytes
  | QueryFailedError string
  | ErrConcurrentStartRequest
  | ErrAlreadyCompleted
  | ErrStaleState
  | ErrConflict
  | ErrMaxAttemptsExceeded
  | ErrActivityTaskNotFound
  | ErrDeserializingToken
  | ErrConsistentQueryNotEnabled
  | ErrConsistentQueryBufferExceeded
  | ErrQueryWorkflowBeforeFirstDecision
  | ErrQueryEnteredInvalidState
  | ContextDeadlineExceeded
  | ContextCanceled
  | OtherError string

text \<open>
  Modelled from the spec: the integer codes of \<^verbatim>\<open>persistence.WorkflowState*\<close> and
  \<^verbatim>\<open>persistence.WorkflowCloseStatus*\<close> are declared outside the engine file. The spec
  lists the states created, running, completed, zombie and the close statuses none,
  completed, failed, canceled, terminated, continued-as-new, timed-out; only their being
  distinct integers matters below.
\<close>

definition WorkflowStateCreated :: int where "WorkflowStateCreated = 0"
definition WorkflowStateRunning :: int where "WorkflowStateRunning = 1"
definition WorkflowStateCompleted :: int where "WorkflowStateCompleted = 2"
definition WorkflowStateZombie :: int where "WorkflowStateZombie = 3"

definition WorkflowCloseStatusNone :: int where "WorkflowCloseStatusNone = 0"
definition WorkflowCloseStatusCompleted :: int where "WorkflowCloseStatusCompleted = 1"
definition WorkflowCloseStatusFailed :: int where "WorkflowCloseStatusFailed = 2"
definition WorkflowCloseStatusCanceled :: int where "WorkflowCloseStatusCanceled = 3"
definition WorkflowCloseStatusTerminated :: int where "WorkflowCloseStatusTerminated = 4"
definition WorkflowCloseStatusContinuedAsNew :: int where "WorkflowCloseStatusContinuedAsNew = 5"
definition WorkflowCloseStatusTimedOut :: int where "WorkflowCloseStatusTimedOut = 6"

text \<open>
  \<^verbatim>\<open>types.WorkflowIDReusePolicy\<close> is an integer enum; a value outside the four named
  ones reaches the \<^verbatim>\<open>default\<close> branch of a switch and is \<open>OtherPolicy\<close> here.
\<close>

datatype WorkflowIDReusePolicy =
    AllowDuplicateFailedOnly
  | AllowDuplicate
  | RejectDuplicate
  | TerminateIfRunning
  | OtherPolicy nat

subsection \<open>Printing integers, for \<^verbatim>\<open>fmt.Sprintf\<close> with \<^verbatim>\<open>%v\<close>\<close>

definition digit_char :: "nat \<Rightarrow> char" where
  "digit_char d = ''0123456789'' ! (d mod 10)"

function string_of_nat :: "nat \<Rightarrow> string" where
  "string_of_nat n =
     (if n < 10 then [digit_char n] else string_of_nat (n div 10) @ [digit_char (n mod 10)])"
  by pat_completeness auto
termination
  by (relation "measure (\<lambda>n. n)") auto

definition string_of_int :: "int \<Rightarrow> string" where
  "string_of_int i = (if i < 0 then CHR ''-'' # string_of_nat (nat (- i)) else string_of_nat (nat i))"

section \<open>Workflow-ID reuse policy\<close>

text \<open>\<^verbatim>\<open>FailedWorkflowCloseState\<close>: the map's keys, as a membership test.\<close>

definition FailedWorkflowCloseState :: "int \<Rightarrow> bool" where
  "FailedWorkflowCloseState c \<longleftrightarrow>
     c = WorkflowCloseStatusFailed \<or> c = WorkflowCloseStatusCanceled \<or>
     c = WorkflowCloseStatusTerminated \<or> c = WorkflowCloseStatusTimedOut"

definition getWorkflowAlreadyStartedError :: "string \<Rightarrow> string \<Rightarrow> string \<Rightarrow> string \<Rightarrow> string \<Rightarrow> error" where
  "getWorkflowAlreadyStartedError msgHead msgTail createRequestID workflowID runID =
     WorkflowExecutionAlreadyStartedError
       (msgHead @ workflowID @ '', RunId: '' @ runID @ msgTail) createRequestID runID"

text \<open>
  \<^verbatim>\<open>applyWorkflowIDReusePolicyHelper\<close>: \<open>None\<close> is the nil error (the start may
  proceed). Each message template is split at its two \<^verbatim>\<open>%v\<close>.
\<close>

definition applyWorkflowIDReusePolicyHelper ::
  "string \<Rightarrow> string \<Rightarrow> int \<Rightarrow> int \<Rightarrow> string \<Rightarrow> WorkflowIDReusePolicy \<Rightarrow> error option" where
  "applyWorkflowIDReusePolicyHelper prevStartRequestID prevRunID prevState prevCloseState
       workflowID wfIDReusePolicy =
     (if prevState = WorkflowStateCreated \<or> prevState = WorkflowStateRunning then
        Some (getWorkflowAlreadyStartedError
          ''Workflow execution is already running. WorkflowId: '' ''.''
          prevStartRequestID workflowID prevRunID)
      else if prevState = WorkflowStateCompleted then
        (case wfIDReusePolicy of
           AllowDuplicateFailedOnly \<Rightarrow>
             (if \<not> FailedWorkflowCloseState prevCloseState then
                Some (getWorkflowAlreadyStartedError
                  ''Workflow execution already finished successfully. WorkflowId: ''
                  ''. Workflow ID reuse policy: allow duplicate workflow ID if last run failed.''
                  prevStartRequestID workflowID prevRunID)
              else None)
         | AllowDuplicate \<Rightarrow> None
         | TerminateIfRunning \<Rightarrow> None
         | RejectDuplicate \<Rightarrow>
             Some (getWorkflowAlreadyStartedError
               ''Workflow execution already finished. WorkflowId: ''
               ''. Workflow ID reuse policy: reject duplicate workflow ID.''
               prevStartRequestID workflowID prevRunID)
         | OtherPolicy _ \<Rightarrow>
             Some (InternalServiceError ''Failed to process start workflow reuse policy.''))
      else
        Some (InternalServiceError
          (''Failed to process workflow, workflow has invalid state: '' @ string_of_int prevState @ ''.'')))"

section \<open>Start requests\<close>

text \<open>
  Request fields hold what their getters return (the zero value when the pointer is nil),
  except the fields whose nil-ness the code tests, which are options.
  \<^verbatim>\<open>BackoffCoefficient\<close> is a \<^verbatim>\<open>float64\<close> that the code only compares with 1; it is
  a rational here (no NaN).
\<close>

record RetryPolicy =
  InitialIntervalInSeconds :: int32
  BackoffCoefficient :: rat
  MaximumIntervalInSeconds :: int32
  MaximumAttempts :: int32
  ExpirationIntervalInSeconds :: int32

record StartWorkflowExecutionRequest =
  DomainName :: string
  WorkflowID :: string
  WorkflowType :: "string option"
  TaskList :: "string option"
  ExecutionStartToCloseTimeoutSeconds :: "int32 option"
  TaskStartToCloseTimeoutSeconds :: "int32 option"
  RequestID :: string
  WorkflowIDReusePolicy :: WorkflowIDReusePolicy
  RetryPolicy :: "RetryPolicy option"
  CronSchedule :: string
  DelayStartSeconds :: int32

record HistoryStartWorkflowExecutionRequest =
  DomainUUID :: string
  StartRequest :: StartWorkflowExecutionRequest
  ParentExecutionInfo :: "string option"
  FirstDecisionTaskBackoffSeconds :: "int32 option"
  ExpirationTimestamp :: "int option"

definition getInt32 :: "int32 option \<Rightarrow> int32" where
  "getInt32 p = (case p of None \<Rightarrow> 0 | Some v \<Rightarrow> v)"

definition getName :: "string option \<Rightarrow> string" where
  "getName p = (case p of None \<Rightarrow> [] | Some n \<Rightarrow> n)"

subsection \<open>Time\<close>

text \<open>
  A \<^verbatim>\<open>time.Time\<close> is its number of nanoseconds since the Unix epoch, unbounded as Go's
  instants are far wider than \<^verbatim>\<open>int64\<close> nanoseconds; a \<^verbatim>\<open>time.Duration\<close> is an
  \<^verbatim>\<open>int64\<close> count of nanoseconds. \<^verbatim>\<open>Time.Sub\<close> saturates, \<^verbatim>\<open>Time.UnixNano\<close>
  wraps into \<^verbatim>\<open>int64\<close>, \<^verbatim>\<open>Time.Round\<close> rounds halves up.
\<close>

definition Second :: int where "Second = 1000000000"
definition Millisecond :: int where "Millisecond = 1000000"

definition maxDuration :: int where "maxDuration = 2 ^ 63 - 1"
definition minDuration :: int where "minDuration = - (2 ^ 63)"

definition time_Sub :: "int \<Rightarrow> int \<Rightarrow> int" where
  "time_Sub t u =
     (let d = t - u in if d > maxDuration then maxDuration else if d < minDuration then minDuration else d)"

definition wrap_int64 :: "int \<Rightarrow> int" where
  "wrap_int64 x = (x + 2 ^ 63) mod 2 ^ 64 - 2 ^ 63"

definition time_Round :: "int \<Rightarrow> int \<Rightarrow> int" where
  "time_Round t d = (let r = t mod d in if r + r < d then t - r else t + (d - r))"

definition time_UnixNano :: "int \<Rightarrow> int" where
  "time_UnixNano t = wrap_int64 t"

subsection \<open>\<^verbatim>\<open>common.CreateHistoryStartWorkflowRequest\<close>\<close>

definition ErrDelayStartSeconds :: error where
  "ErrDelayStartSeconds =
     BadRequestError ''Conflicting inputs: both DelayStartSeconds and Cron schedule is set''"

text \<open>
  \<^verbatim>\<open>backoff.GetBackoffForNextScheduleInSeconds\<close> is outside the sources: the function
  takes it as the parameter \<open>cronBackoff\<close> (cron schedule, start time, close time to
  seconds). \<open>expirationInSeconds\<close> is an \<^verbatim>\<open>int32\<close> sum, so it wraps; its conversion to
  a duration and the multiplication by a second are \<^verbatim>\<open>int64\<close> and cannot overflow.
\<close>

definition CreateHistoryStartWorkflowRequest ::
  "(string \<Rightarrow> int \<Rightarrow> int \<Rightarrow> int32) \<Rightarrow> string \<Rightarrow> StartWorkflowExecutionRequest \<Rightarrow> int \<Rightarrow>
     error + HistoryStartWorkflowExecutionRequest" where
  "CreateHistoryStartWorkflowRequest cronBackoff domainID startRequest now =
     (let firstDecisionTaskBackoffSeconds = cronBackoff (CronSchedule startRequest) now now;
          delayStartSeconds = DelayStartSeconds startRequest
      in if sint delayStartSeconds > 0 \<and> sint firstDecisionTaskBackoffSeconds > 0 then
           Inl ErrDelayStartSeconds
         else
           let backoffSeconds =
                 (if sint delayStartSeconds > 0 then delayStartSeconds
                  else firstDecisionTaskBackoffSeconds)
           in Inr \<lparr> DomainUUID = domainID,
                    StartRequest = startRequest,
                    ParentExecutionInfo = None,
                    FirstDecisionTaskBackoffSeconds = Some backoffSeconds,
                    ExpirationTimestamp =
                      (case RetryPolicy startRequest of
                         None \<Rightarrow> None
                       | Some policy \<Rightarrow>
                           if sint (ExpirationIntervalInSeconds policy) > 0 then
                             let expirationInSeconds = ExpirationIntervalInSeconds policy + backoffSeconds;
                                 deadline = now + sint expirationInSeconds * Second
                             in Some (time_UnixNano (time_Round deadline Millisecond))
                           else None) \<rparr>)"

subsection \<open>Validation of a start request\<close>

definition ValidateRetryPolicy :: "RetryPolicy option \<Rightarrow> error option" where
  "ValidateRetryPolicy p =
     (case p of
        None \<Rightarrow> None
      | Some policy \<Rightarrow>
          if sint (InitialIntervalInSeconds policy) \<le> 0 then
            Some (BadRequestError ''InitialIntervalInSeconds must be greater than 0 on retry policy.'')
          else if BackoffCoefficient policy < 1 then
            Some (BadRequestError ''BackoffCoefficient cannot be less than 1 on retry policy.'')
          else if sint (MaximumIntervalInSeconds policy) < 0 then
            Some (BadRequestError ''MaximumIntervalInSeconds cannot be less than 0 on retry policy.'')
          else if sint (MaximumIntervalInSeconds policy) > 0 \<and>
                  sint (MaximumIntervalInSeconds policy) < sint (InitialIntervalInSeconds policy) then
            Some (BadRequestError
              ''MaximumIntervalInSeconds cannot be less than InitialIntervalInSeconds on retry policy.'')
          else if sint (MaximumAttempts policy) < 0 then
            Some (BadRequestError ''MaximumAttempts cannot be less than 0 on retry policy.'')
          else if sint (ExpirationIntervalInSeconds policy) < 0 then
            Some (BadRequestError ''ExpirationIntervalInSeconds cannot be less than 0 on retry policy.'')
          else if sint (MaximumAttempts policy) = 0 \<and> sint (ExpirationIntervalInSeconds policy) = 0 then
            Some (BadRequestError
              ''MaximumAttempts and ExpirationIntervalInSeconds are both 0. At least one of them must be specified.'')
          else None)"

definition validateStartWorkflowExecutionRequest ::
  "StartWorkflowExecutionRequest \<Rightarrow> nat \<Rightarrow> error option" where
  "validateStartWorkflowExecutionRequest request maxIDLengthLimit =
     (if length (RequestID request) = 0 then Some (BadRequestError ''Missing request ID.'')
      else if ExecutionStartToCloseTimeoutSeconds request = None \<or>
              sint (getInt32 (ExecutionStartToCloseTimeoutSeconds request)) \<le> 0 then
        Some (BadRequestError ''Missing or invalid ExecutionStartToCloseTimeoutSeconds.'')
      else if TaskStartToCloseTimeoutSeconds request = None \<or>
              sint (getInt32 (TaskStartToCloseTimeoutSeconds request)) \<le> 0 then
        Some (BadRequestError ''Missing or invalid TaskStartToCloseTimeoutSeconds.'')
      else if TaskList request = None \<or> getName (TaskList request) = [] then
        Some (BadRequestError ''Missing Tasklist.'')
      else if WorkflowType request = None \<or> getName (WorkflowType request) = [] then
        Some (BadRequestError ''Missing WorkflowType.'')
      else if length (DomainName request) > maxIDLengthLimit then
        Some (BadRequestError ''Domain exceeds length limit.'')
      else if length (WorkflowID request) > maxIDLengthLimit then
        Some (BadRequestError ''WorkflowId exceeds length limit.'')
      else if length (getName (TaskList request)) > maxIDLengthLimit then
        Some (BadRequestError ''TaskList exceeds length limit.'')
      else if length (getName (WorkflowType request)) > maxIDLengthLimit then
        Some (BadRequestError ''WorkflowType exceeds length limit.'')
      else ValidateRetryPolicy (RetryPolicy request))"

definition MinInt32 :: "int32 \<Rightarrow> int32 \<Rightarrow> int32" where
  "MinInt32 a b = (if sint a < sint b then a else b)"

text \<open>
  \<^verbatim>\<open>overrideStartWorkflowExecutionRequest\<close> caps the decision timeout of the request in
  place; \<open>maxDecisionStartToCloseSeconds\<close> is the configured cap, already cast to
  \<^verbatim>\<open>int32\<close>.
\<close>

definition overrideStartWorkflowExecutionRequest ::
  "int32 \<Rightarrow> StartWorkflowExecutionRequest \<Rightarrow> StartWorkflowExecutionRequest" where
  "overrideStartWorkflowExecutionRequest maxDecisionStartToCloseSeconds request =
     (let t0 = getInt32 (TaskStartToCloseTimeoutSeconds request);
          t1 = MinInt32 t0 maxDecisionStartToCloseSeconds;
          t2 = MinInt32 t1 (getInt32 (ExecutionStartToCloseTimeoutSeconds request))
      in if t2 \<noteq> t0 then request\<lparr>TaskStartToCloseTimeoutSeconds := Some t2\<rparr> else request)"

subsection \<open>The child context of the current-run lock\<close>

definition contextLockTimeout :: int where
  "contextLockTimeout = 500 * Millisecond"

text \<open>
  A \<^verbatim>\<open>context.Context\<close>: its deadline, if it has one; whether \<^verbatim>\<open>Done()\<close> returns a
  channel; and \<^verbatim>\<open>Err()\<close>, which is set once the context is done.
\<close>

record Context =
  ctxDeadline :: "int option"
  ctxHasDone :: bool
  ctxErr :: "error option"

text \<open>
  \<^verbatim>\<open>newChildContext\<close> returns \<^verbatim>\<open>context.WithTimeout(context.Background(), ctxTimeout)\<close>:
  the child is determined by \<open>ctxTimeout\<close>, which is the value of the model.
\<close>

definition newChildContext :: "int \<Rightarrow> Context \<Rightarrow> int" where
  "newChildContext now parentCtx =
     (case ctxDeadline parentCtx of
        None \<Rightarrow> contextLockTimeout
      | Some deadline \<Rightarrow>
          let parentTimeout = time_Sub deadline now
          in if parentTimeout > 0 \<and> parentTimeout < contextLockTimeout then parentTimeout
             else contextLockTimeout)"

section \<open>Mutable state\<close>

record ActivityInfo =
  aiScheduleID :: int
  aiActivityID :: string
  aiStartedID :: int
  aiAttempt :: int32
  aiCancelRequested :: bool
  aiCancelRequestID :: int
  aiDetails :: bytes
  aiLastHeartBeatUpdatedTime :: int

datatype HistoryEvent =
    WorkflowExecutionStartedEvent string string
  | WorkflowExecutionSignaledEvent string bytes string
  | DecisionTaskScheduledEvent
  | WorkflowExecutionTerminatedEvent string bytes string
  | ActivityTaskCompletedEvent int int bytes

text \<open>
  Modelled from the spec: the mutable-state builder (\<^verbatim>\<open>execution.MutableState\<close>) is an
  interface implemented outside the sources. The record keeps the fields of the spec's data
  model that the engine reads: workflow state and close status, next-event, last-first-event
  and previous-started-event ids, the current branch token, the sticky attributes and the
  execution info, current and last-write version, the pending activity map (schedule id to activity info) with its index
  by activity id, the pending and in-flight decision flags, the buffered ids of the query
  registry, and the history events recorded so far.
\<close>

record ExecutionInfo =
  eiWorkflowTypeName :: string
  eiTaskList :: string
  eiStickyTaskList :: string
  eiStickyScheduleToStartTimeout :: int32
  eiClientImpl :: string
  eiClientFeatureVersion :: string

record MutableState =
  msRunID :: string
  msCreateRequestID :: string
  msState :: int
  msCloseStatus :: int
  msNextEventID :: int
  msLastFirstEventID :: int
  msPreviousStartedEventID :: int
  msCurrentBranchToken :: "error + bytes"
  msIsStickyTaskListEnabled :: bool
  msExecutionInfo :: ExecutionInfo
  msCurrentVersion :: int
  msLastWriteVersion :: "error + int"
  msHistory :: "HistoryEvent list"
  msPendingActivities :: "int \<rightharpoonup> ActivityInfo"
  msActivityIDs :: "string \<rightharpoonup> int"
  msHasPendingDecision :: bool
  msHasInFlightDecision :: bool
  msBufferedQueryIDs :: "string list"

text \<open>
  Modelled from the spec: a run is running when its state is created or running (``close
  status is none iff state is created or running'').
\<close>

definition IsWorkflowExecutionRunning :: "MutableState \<Rightarrow> bool" where
  "IsWorkflowExecutionRunning ms \<longleftrightarrow>
     msState ms = WorkflowStateCreated \<or> msState ms = WorkflowStateRunning"

definition appendEvent :: "HistoryEvent \<Rightarrow> MutableState \<Rightarrow> MutableState" where
  "appendEvent ev ms = ms\<lparr>msHistory := msHistory ms @ [ev], msNextEventID := msNextEventID ms + 1\<rparr>"

text \<open>
  Modelled from the spec: \<^verbatim>\<open>execution.TerminateWorkflow\<close> appends
  \<^verbatim>\<open>WorkflowExecutionTerminated\<close> with the given reason, details and identity, and the run
  is then closed with close status terminated. The batch's first event id is passed by the
  caller and not used by the model.
\<close>

definition TerminateWorkflow ::
  "MutableState \<Rightarrow> int \<Rightarrow> string \<Rightarrow> bytes \<Rightarrow> string \<Rightarrow> MutableState" where
  "TerminateWorkflow ms eventBatchFirstEventID terminateReason terminateDetails terminateIdentity =
     (appendEvent (WorkflowExecutionTerminatedEvent terminateReason terminateDetails terminateIdentity) ms)
       \<lparr>msState := WorkflowStateCompleted, msCloseStatus := WorkflowCloseStatusTerminated\<rparr>"

section \<open>StartWorkflowExecution\<close>

definition DomainStatusRegistered :: int where "DomainStatusRegistered = 0"

record DomainCacheEntry =
  deID :: string
  deName :: string
  deStatus :: int
  deIsGlobalDomain :: bool
  deActiveClusterName :: string
  deFailoverVersion :: int
  deFailoverNotificationVersion :: int
  dePreviousFailoverVersion :: int
  deNotificationVersion :: int
  deIsDomainActive :: bool

definition errDomainDeprecated :: error where
  "errDomainDeprecated = BadRequestError ''Domain is deprecated.''"

definition TerminateIfRunningReason :: string where
  "TerminateIfRunningReason = ''TerminateIfRunning Policy''"

definition IdentityHistoryService :: string where
  "IdentityHistoryService = ''history-service''"

definition bytes_of_string :: "string \<Rightarrow> bytes" where
  "bytes_of_string s = map (\<lambda>c. of_nat (of_char c)) s"

text \<open>\<^verbatim>\<open>TerminateIfRunningDetailsTemplate\<close> is \<^verbatim>\<open>"New runID: %s"\<close>.\<close>

definition getTerminateIfRunningDetails :: "string \<Rightarrow> bytes" where
  "getTerminateIfRunningDetails newRunID = bytes_of_string (''New runID: '' @ newRunID)"

definition shouldTerminateAndStart :: "HistoryStartWorkflowExecutionRequest \<Rightarrow> int \<Rightarrow> bool" where
  "shouldTerminateAndStart startRequest state \<longleftrightarrow>
     WorkflowIDReusePolicy (StartRequest startRequest) = TerminateIfRunning \<and>
     (state = WorkflowStateRunning \<or> state = WorkflowStateCreated)"

datatype CreateWorkflowMode = CreateWorkflowModeBrandNew | CreateWorkflowModeWorkflowIDReuse

record SignalWithStartRequest =
  swsSignalName :: string
  swsSignalInput :: bytes
  swsIdentity :: string
  swsStart :: StartWorkflowExecutionRequest

record signalWithStartArg =
  signalWithStartRequest :: SignalWithStartRequest
  prevMutableState :: "MutableState option"

text \<open>
  What the collaborators of a start return. The stores, the execution cache and the
  mutable-state builder are outside the sources; every call of theirs that the engine makes
  is a field here, a function of the arguments the engine passes (and of the attempt number
  inside the retry loop), so that the model is a function of the environment. \<open>envNow\<close> is
  the shard's time source, \<open>envWallNow\<close> is \<^verbatim>\<open>time.Now()\<close>.
\<close>

record StartEnv =
  envMaxIDLengthLimit :: nat
  envMaxDecisionStartToCloseSeconds :: int32
  envNow :: int
  envWallNow :: int
  envNewRunID :: string
  envGetOrCreateCurrent :: "int \<Rightarrow> error option"
  envCreateMutableState :: "string \<Rightarrow> error + MutableState"
  envAddStartedEventFails :: bool
  envAddSignaledFails :: bool
  envAddFirstDecisionErr :: "error option"
  envCloseTransactionErr :: "error option"
  envPersistFirstWorkflowEvents :: "error + int"
  envCreateWorkflowExecution :: "CreateWorkflowMode \<Rightarrow> string \<Rightarrow> int \<Rightarrow> error option"
  envLoadOnce :: "string \<Rightarrow> error + MutableState"
  envConditionalRetryCount :: nat
  envTerminateWorkflowErr :: "nat \<Rightarrow> error option"
  envReloadMutableStateErr :: "nat \<Rightarrow> error option"
  envUpdateWithNewAsActive :: "nat \<Rightarrow> error option"
  envCronBackoff :: "string \<Rightarrow> int \<Rightarrow> int \<Rightarrow> int32"

text \<open>
  The calls on the stores and the cache that a start makes, in order, each with what it
  returned. \<open>PersistFirstWorkflowEvents\<close> writes the first event batch of the given run
  to the history store; \<open>CreateWorkflowExecution\<close> is the attempt to create the run in the
  execution store.
\<close>

datatype Effect =
    AcquireCurrentLock int "error option"
  | ReleaseCurrentLock "error option"
  | PersistFirstWorkflowEvents string "HistoryEvent list" "error option"
  | CreateWorkflowExecution CreateWorkflowMode string int MutableState "error option"
  | LoadRun string
  | ReleaseRun "error option"
  | ClearContext
  | ReloadMutableState
  | UpdateWorkflowExecutionWithNewAsActive MutableState MutableState "error option"

type_synonym StartResult = "(error + string) \<times> Effect list"

definition resultError :: "error + 'a \<Rightarrow> error option" where
  "resultError r = (case r of Inl e \<Rightarrow> Some e | Inr _ \<Rightarrow> None)"

subsection \<open>Adding the start events\<close>

text \<open>
  Modelled from the spec: the builder's \<^verbatim>\<open>AddWorkflowExecutionStartedEvent\<close>,
  \<^verbatim>\<open>AddWorkflowExecutionSignaled\<close> and \<^verbatim>\<open>AddFirstDecisionTaskScheduled\<close> are outside
  the sources. Each appends its event; the first decision task is scheduled unless the
  request has a first-decision backoff. Whether a call fails is given by the environment.
\<close>

definition AddWorkflowExecutionStartedEvent ::
  "MutableState \<Rightarrow> string \<Rightarrow> HistoryStartWorkflowExecutionRequest \<Rightarrow> MutableState" where
  "AddWorkflowExecutionStartedEvent ms runID startRequest =
     appendEvent (WorkflowExecutionStartedEvent runID (RequestID (StartRequest startRequest)))
       (ms\<lparr>msRunID := runID, msCreateRequestID := RequestID (StartRequest startRequest)\<rparr>)"

definition AddWorkflowExecutionSignaled ::
  "MutableState \<Rightarrow> string \<Rightarrow> bytes \<Rightarrow> string \<Rightarrow> MutableState" where
  "AddWorkflowExecutionSignaled ms signalName input identity =
     appendEvent (WorkflowExecutionSignaledEvent signalName input identity) ms"

definition AddFirstDecisionTaskScheduled ::
  "MutableState \<Rightarrow> HistoryStartWorkflowExecutionRequest \<Rightarrow> MutableState" where
  "AddFirstDecisionTaskScheduled ms startRequest =
     (if sint (getInt32 (FirstDecisionTaskBackoffSeconds startRequest)) > 0 then ms
      else (appendEvent DecisionTaskScheduledEvent ms)\<lparr>msHasPendingDecision := True\<rparr>)"

definition generateFirstDecisionTask ::
  "StartEnv \<Rightarrow> MutableState \<Rightarrow> HistoryStartWorkflowExecutionRequest \<Rightarrow> error + MutableState" where
  "generateFirstDecisionTask env mutableState startRequest =
     (if ParentExecutionInfo startRequest = None then
        (case envAddFirstDecisionErr env of
           Some err \<Rightarrow> Inl err
         | None \<Rightarrow> Inr (AddFirstDecisionTaskScheduled mutableState startRequest))
      else Inr mutableState)"

definition addStartEventsAndTasks ::
  "StartEnv \<Rightarrow> MutableState \<Rightarrow> string \<Rightarrow> HistoryStartWorkflowExecutionRequest \<Rightarrow>
     SignalWithStartRequest option \<Rightarrow> error + MutableState" where
  "addStartEventsAndTasks env mutableState runID startRequest signalRequest =
     (if envAddStartedEventFails env then
        Inl (InternalServiceError ''Failed to add workflow execution started event.'')
      else
        let ms1 = AddWorkflowExecutionStartedEvent mutableState runID startRequest
        in case signalRequest of
             None \<Rightarrow> generateFirstDecisionTask env ms1 startRequest
           | Some sRequest \<Rightarrow>
               if envAddSignaledFails env then
                 Inl (InternalServiceError ''Failed to add workflow execution signaled event.'')
               else
                 generateFirstDecisionTask env
                   (AddWorkflowExecutionSignaled ms1 (swsSignalName sRequest)
                      (swsSignalInput sRequest) (swsIdentity sRequest))
                   startRequest)"

definition getStartRequest ::
  "StartEnv \<Rightarrow> string \<Rightarrow> SignalWithStartRequest \<Rightarrow> error + HistoryStartWorkflowExecutionRequest" where
  "getStartRequest env domainID request =
     CreateHistoryStartWorkflowRequest (envCronBackoff env) domainID (swsStart request) (envWallNow env)"

subsection \<open>Terminate and start\<close>

text \<open>
  The loop of \<^verbatim>\<open>terminateAndStartWorkflow\<close>, from attempt \<open>attempt\<close>. The variable
  \<^verbatim>\<open>runningMutableState\<close> is assigned once, before the loop: the result of
  \<^verbatim>\<open>ReloadMutableState\<close> is discarded, so every attempt works on the same object. When
  \<^verbatim>\<open>execution.TerminateWorkflow\<close> fails the object is left as it was. Running out of
  attempts leaves the loop and reaches the function's final \<^verbatim>\<open>return\<close>. The start
  request is nil when the caller is the signal-with-start handler, which passes its own
  request instead; no caller passes neither, and the model answers that case with an error.
\<close>

function terminateAndStartLoop ::
  "StartEnv \<Rightarrow> string \<Rightarrow> string \<Rightarrow> HistoryStartWorkflowExecutionRequest option \<Rightarrow>
     SignalWithStartRequest option \<Rightarrow> nat \<Rightarrow> MutableState \<Rightarrow> StartResult" where
  "terminateAndStartLoop env runID domainID startRequest signalRequest attempt runningMutableState =
     (if \<not> attempt < envConditionalRetryCount env then (Inr runID, [])
      else if \<not> IsWorkflowExecutionRunning runningMutableState then (Inl ErrAlreadyCompleted, [])
      else
        (case envTerminateWorkflowErr env attempt of
          Some err \<Rightarrow>
            (if err = ErrStaleState then
               (if Suc attempt \<noteq> envConditionalRetryCount env then
                  (case envReloadMutableStateErr env attempt of
                     Some err' \<Rightarrow> (Inl err', [ClearContext, ReloadMutableState])
                   | None \<Rightarrow>
                       (let (r, effs) = terminateAndStartLoop env runID domainID startRequest signalRequest
                                          (Suc attempt) runningMutableState
                        in (r, [ClearContext, ReloadMutableState] @ effs)))
                else
                  (let (r, effs) = terminateAndStartLoop env runID domainID startRequest signalRequest
                                     (Suc attempt) runningMutableState
                   in (r, [ClearContext] @ effs)))
             else (Inl err, []))
        | None \<Rightarrow>
            (let terminated = TerminateWorkflow runningMutableState (msNextEventID runningMutableState)
                                TerminateIfRunningReason (getTerminateIfRunningDetails runID)
                                IdentityHistoryService
             in (case envCreateMutableState env runID of
                   Inl err \<Rightarrow> (Inl err, [])
                 | Inr newMutableState \<Rightarrow>
                     (case (case signalRequest of
                              None \<Rightarrow> (case startRequest of
                                           None \<Rightarrow> Inl (OtherError ''nil start request'')
                                         | Some sr \<Rightarrow> Inr sr)
                            | Some sRequest \<Rightarrow> getStartRequest env domainID sRequest) of
                        Inl err \<Rightarrow> (Inl err, [])
                      | Inr startRequest' \<Rightarrow>
                          (case addStartEventsAndTasks env newMutableState runID startRequest' signalRequest of
                             Inl err \<Rightarrow> (Inl err, [])
                           | Inr newMutableState' \<Rightarrow>
                               (case envUpdateWithNewAsActive env attempt of
                                  None \<Rightarrow>
                                    (Inr runID,
                                     [UpdateWorkflowExecutionWithNewAsActive terminated newMutableState' None])
                                | Some updateErr \<Rightarrow>
                                    (if updateErr = ErrConflict then
                                       (let (r, effs) = terminateAndStartLoop env runID domainID
                                                          (Some startRequest') signalRequest (Suc attempt)
                                                          terminated
                                        in (r, [UpdateWorkflowExecutionWithNewAsActive terminated
                                                  newMutableState' (Some updateErr)] @ effs))
                                     else
                                       (Inl updateErr,
                                        [UpdateWorkflowExecutionWithNewAsActive terminated newMutableState'
                                           (Some updateErr)])))))))))"
  by pat_completeness auto
termination
  by (relation "measure (\<lambda>(env, runID, domainID, startRequest, signalRequest, attempt, ms).
        envConditionalRetryCount env - attempt)") auto

definition terminateAndStartWorkflow ::
  "StartEnv \<Rightarrow> MutableState \<Rightarrow> string \<Rightarrow> string \<Rightarrow> HistoryStartWorkflowExecutionRequest option \<Rightarrow>
     SignalWithStartRequest option \<Rightarrow> StartResult" where
  "terminateAndStartWorkflow env runningMutableState runID domainID startRequest signalRequest =
     terminateAndStartLoop env runID domainID startRequest signalRequest 0 runningMutableState"

subsection \<open>\<^verbatim>\<open>startWorkflowHelper\<close>\<close>

definition applyWorkflowIDReusePolicyForSigWithStart ::
  "MutableState \<Rightarrow> string \<Rightarrow> WorkflowIDReusePolicy \<Rightarrow> error option" where
  "applyWorkflowIDReusePolicyForSigWithStart prevExecutionInfo workflowID wfIDReusePolicy =
     applyWorkflowIDReusePolicyHelper (msCreateRequestID prevExecutionInfo) (msRunID prevExecutionInfo)
       (msState prevExecutionInfo) (msCloseStatus prevExecutionInfo) workflowID wfIDReusePolicy"

definition asAlreadyStarted :: "error option \<Rightarrow> AlreadyStartedInfo option" where
  "asAlreadyStarted err = (case err of Some (PersistenceAlreadyStarted t) \<Rightarrow> Some t | _ \<Rightarrow> None)"

text \<open>What the helper holds when it calls \<^verbatim>\<open>CreateWorkflowExecution\<close> the first time.\<close>

record StartPrepared =
  spRunID :: string
  spCurMutableState :: MutableState
  spHistorySize :: int
  spCreateMode :: CreateWorkflowMode
  spPrevRunID :: string
  spPrevLastWriteVersion :: int

text \<open>
  From the new run id to the persisted first events: the part of the helper between taking
  the current-run lock and the first creation attempt.
\<close>

definition startPrepare ::
  "StartEnv \<Rightarrow> HistoryStartWorkflowExecutionRequest \<Rightarrow> DomainCacheEntry \<Rightarrow>
     signalWithStartArg option \<Rightarrow> (error \<times> Effect list) + (StartPrepared \<times> Effect list)" where
  "startPrepare env startRequest domainEntry sigArg =
     (let request = StartRequest startRequest;
          runID = envNewRunID env;
          prev = (case sigArg of None \<Rightarrow> None | Some a \<Rightarrow> prevMutableState a);
          signalRequest = (case sigArg of None \<Rightarrow> None | Some a \<Rightarrow> Some (signalWithStartRequest a))
      in case envCreateMutableState env runID of
           Inl err \<Rightarrow> Inl (err, [])
         | Inr curMutableState \<Rightarrow>
             (case (case prev of
                      None \<Rightarrow> None
                    | Some prevMS \<Rightarrow>
                        (case msLastWriteVersion prevMS of
                           Inl err \<Rightarrow> Some err
                         | Inr prevLastWriteVersion \<Rightarrow>
                             (if prevLastWriteVersion > msCurrentVersion curMutableState then
                                Some (DomainNotActiveError (deName domainEntry) prevLastWriteVersion)
                              else applyWorkflowIDReusePolicyForSigWithStart prevMS (WorkflowID request)
                                     (WorkflowIDReusePolicy request)))) of
                Some err \<Rightarrow> Inl (err, [])
              | None \<Rightarrow>
                  (case addStartEventsAndTasks env curMutableState runID startRequest signalRequest of
                     Inl err \<Rightarrow> Inl (err, [])
                   | Inr cur \<Rightarrow>
                       (case envCloseTransactionErr env of
                          Some err \<Rightarrow> Inl (err, [])
                        | None \<Rightarrow>
                            (case envPersistFirstWorkflowEvents env of
                               Inl err \<Rightarrow> Inl (err, [PersistFirstWorkflowEvents runID (msHistory cur) (Some err)])
                             | Inr historySize \<Rightarrow>
                                 (case prev of
                                    None \<Rightarrow>
                                      Inr (\<lparr> spRunID = runID, spCurMutableState = cur,
                                              spHistorySize = historySize,
                                              spCreateMode = CreateWorkflowModeBrandNew,
                                              spPrevRunID = [], spPrevLastWriteVersion = 0 \<rparr>,
                                           [PersistFirstWorkflowEvents runID (msHistory cur) None])
                                  | Some prevMS \<Rightarrow>
                                      (case msLastWriteVersion prevMS of
                                         Inl err \<Rightarrow>
                                           Inl (err, [PersistFirstWorkflowEvents runID (msHistory cur) None])
                                       | Inr prevLastWriteVersion \<Rightarrow>
                                           Inr (\<lparr> spRunID = runID, spCurMutableState = cur,
                                                   spHistorySize = historySize,
                                                   spCreateMode = CreateWorkflowModeWorkflowIDReuse,
                                                   spPrevRunID = msRunID prevMS,
                                                   spPrevLastWriteVersion = prevLastWriteVersion \<rparr>,
                                                [PersistFirstWorkflowEvents runID (msHistory cur) None]))))))))"

text \<open>
  The first creation attempt and the handling of its already-started error, up to the
  helper's final \<^verbatim>\<open>return\<close>.
\<close>

definition startCreate ::
  "StartEnv \<Rightarrow> HistoryStartWorkflowExecutionRequest \<Rightarrow> DomainCacheEntry \<Rightarrow> bool \<Rightarrow>
     StartPrepared \<Rightarrow> StartResult" where
  "startCreate env startRequest domainEntry isSignalWithStart p =
     (let request = StartRequest startRequest;
          cur = spCurMutableState p;
          err = envCreateWorkflowExecution env (spCreateMode p) (spPrevRunID p) (spPrevLastWriteVersion p);
          created = [CreateWorkflowExecution (spCreateMode p) (spPrevRunID p) (spPrevLastWriteVersion p) cur err]
      in case asAlreadyStarted err of
           None \<Rightarrow>
             (case err of
                Some e \<Rightarrow> (Inl e, created)
              | None \<Rightarrow> (Inr (spRunID p), created))
         | Some t \<Rightarrow>
             (if asStartRequestID t = RequestID request then (Inr (asRunID t), created)
              else if isSignalWithStart then (Inl (PersistenceAlreadyStarted t), created)
              else if msCurrentVersion cur < asLastWriteVersion t then
                (Inl (DomainNotActiveError (deName domainEntry) (asLastWriteVersion t)), created)
              else if shouldTerminateAndStart startRequest (asState t) then
                (case envLoadOnce env (asRunID t) of
                   Inl e \<Rightarrow> (Inl e, created @ [LoadRun (asRunID t)])
                 | Inr runningMutableState \<Rightarrow>
                     (let (r, effs) = terminateAndStartWorkflow env runningMutableState (spRunID p)
                                        (deID domainEntry) (Some startRequest) None
                      in (r, created @ [LoadRun (asRunID t)] @ effs @ [ReleaseRun (resultError r)])))
              else
                (case applyWorkflowIDReusePolicyHelper (asStartRequestID t) (asRunID t) (asState t)
                        (asCloseStatus t) (WorkflowID request) (WorkflowIDReusePolicy request) of
                   Some e \<Rightarrow> (Inl e, created)
                 | None \<Rightarrow>
                     (let err2 = envCreateWorkflowExecution env CreateWorkflowModeWorkflowIDReuse
                                   (asRunID t) (asLastWriteVersion t);
                          created2 = created @ [CreateWorkflowExecution CreateWorkflowModeWorkflowIDReuse
                                                  (asRunID t) (asLastWriteVersion t) cur err2]
                      in (case err2 of
                            Some e \<Rightarrow> (Inl e, created2)
                          | None \<Rightarrow> (Inr (spRunID p), created2))))))"

definition startWorkflowHelper ::
  "StartEnv \<Rightarrow> Context \<Rightarrow> HistoryStartWorkflowExecutionRequest \<Rightarrow> DomainCacheEntry \<Rightarrow>
     signalWithStartArg option \<Rightarrow> StartResult" where
  "startWorkflowHelper env ctx startRequest domainEntry sigArg =
     (if deStatus domainEntry \<noteq> DomainStatusRegistered then (Inl errDomainDeprecated, [])
      else
        (case validateStartWorkflowExecutionRequest (StartRequest startRequest) (envMaxIDLengthLimit env) of
           Some err \<Rightarrow> (Inl err, [])
         | None \<Rightarrow>
             (let request = overrideStartWorkflowExecutionRequest (envMaxDecisionStartToCloseSeconds env)
                              (StartRequest startRequest);
                  startRequest' = startRequest\<lparr>StartRequest := request\<rparr>;
                  childTimeout = newChildContext (envNow env) ctx
              in (case envGetOrCreateCurrent env childTimeout of
                    Some err \<Rightarrow>
                      (if err = ContextDeadlineExceeded then
                         (Inl ErrConcurrentStartRequest, [AcquireCurrentLock childTimeout (Some err)])
                       else (Inl err, [AcquireCurrentLock childTimeout (Some err)]))
                  | None \<Rightarrow>
                      (case startPrepare env startRequest' domainEntry sigArg of
                         Inl (err, effs) \<Rightarrow>
                           (Inl err, [AcquireCurrentLock childTimeout None] @ effs @ [ReleaseCurrentLock (Some err)])
                       | Inr (p, effs) \<Rightarrow>
                           (let (r, effs') = startCreate env startRequest' domainEntry (sigArg \<noteq> None) p
                            in (r, [AcquireCurrentLock childTimeout None] @ effs @ effs' @
                                   [ReleaseCurrentLock (resultError r)])))))))"

text \<open>\<^verbatim>\<open>StartWorkflowExecution\<close>: the domain entry is the active one of the request's domain.\<close>

definition StartWorkflowExecution ::
  "StartEnv \<Rightarrow> (string \<Rightarrow> error + DomainCacheEntry) \<Rightarrow> Context \<Rightarrow> HistoryStartWorkflowExecutionRequest \<Rightarrow>
     StartResult" where
  "StartWorkflowExecution env GetActiveDomainByID ctx startRequest =
     (case GetActiveDomainByID (DomainUUID startRequest) of
        Inl err \<Rightarrow> (Inl err, [])
      | Inr domainEntry \<Rightarrow> startWorkflowHelper env ctx startRequest domainEntry None)"

section \<open>Activity task handlers\<close>

text \<open>
  \<^verbatim>\<open>common.EmptyEventID\<close>, \<^verbatim>\<open>common.FirstEventID\<close> and
  \<^verbatim>\<open>common.InitialPreviousFailoverVersion\<close> are constants declared outside the sources;
  they are fixed sentinel values, given here with the values of the upstream declaration.
\<close>

definition EmptyEventID :: int where "EmptyEventID = - 23"
definition FirstEventID :: int where "FirstEventID = 1"
definition InitialPreviousFailoverVersion :: int where "InitialPreviousFailoverVersion = - 1"

record TaskToken =
  ttWorkflowID :: string
  ttRunID :: string
  ttScheduleID :: int
  ttScheduleAttempt :: int
  ttActivityID :: string

text \<open>
  Modelled from the spec: \<^verbatim>\<open>GetActivityInfo\<close> looks the schedule id up in the pending
  activity map, \<^verbatim>\<open>GetActivityByActivityID\<close> goes through the index by activity id.
\<close>

definition GetActivityInfo :: "MutableState \<Rightarrow> int \<Rightarrow> ActivityInfo option" where
  "GetActivityInfo ms scheduleID = msPendingActivities ms scheduleID"

definition GetActivityByActivityID :: "MutableState \<Rightarrow> string \<Rightarrow> ActivityInfo option" where
  "GetActivityByActivityID ms activityID =
     (case msActivityIDs ms activityID of
        None \<Rightarrow> None
      | Some scheduleID \<Rightarrow> msPendingActivities ms scheduleID)"

definition getScheduleID :: "string \<Rightarrow> MutableState \<Rightarrow> error + int" where
  "getScheduleID activityID mutableState =
     (if activityID = [] then Inl (BadRequestError ''Neither ActivityID nor ScheduleID is provided'')
      else
        (case GetActivityByActivityID mutableState activityID of
           None \<Rightarrow> Inl (BadRequestError ''Cannot locate Activity ScheduleID'')
         | Some activityInfo \<Rightarrow> Inr (aiScheduleID activityInfo)))"

text \<open>
  The checks that open the action of every activity handler but the start one: the
  workflow must run, the schedule id comes from the token or, for a token without one, from
  the activity id; a missing activity whose schedule id is not below the next event id
  means a stale cache; a missing or unstarted activity, or a token with a schedule id whose
  attempt differs from the activity's, is not found. \<open>Inr\<close> carries the schedule id and
  the activity info on to the rest of the action.
\<close>

definition tokenScheduleID :: "TaskToken \<Rightarrow> MutableState \<Rightarrow> error + int" where
  "tokenScheduleID token mutableState =
     (if ttScheduleID token = EmptyEventID then getScheduleID (ttActivityID token) mutableState
      else Inr (ttScheduleID token))"

definition activityTaskChecks :: "TaskToken \<Rightarrow> MutableState \<Rightarrow> error + (int \<times> ActivityInfo)" where
  "activityTaskChecks token mutableState =
     (if \<not> IsWorkflowExecutionRunning mutableState then Inl ErrAlreadyCompleted
      else
        (case tokenScheduleID token mutableState of
           Inl err0 \<Rightarrow> Inl err0
         | Inr scheduleID \<Rightarrow>
             (case GetActivityInfo mutableState scheduleID of
                None \<Rightarrow>
                  (if scheduleID \<ge> msNextEventID mutableState then Inl ErrStaleState
                   else Inl ErrActivityTaskNotFound)
              | Some ai \<Rightarrow>
                  (if aiStartedID ai = EmptyEventID \<or>
                      (ttScheduleID token \<noteq> EmptyEventID \<and> ttScheduleAttempt token \<noteq> sint (aiAttempt ai))
                   then Inl ErrActivityTaskNotFound
                   else Inr (scheduleID, ai)))))"

text \<open>
  Modelled from the spec: \<^verbatim>\<open>AddActivityTaskCompletedEvent\<close> appends the completion event
  and the activity is no longer pending; \<^verbatim>\<open>UpdateActivityProgress\<close> ``only updates
  last-heartbeat time/details'' of the activity; the driver's decision scheduling appends a
  decision-task-scheduled event.
\<close>

definition AddActivityTaskCompletedEvent :: "MutableState \<Rightarrow> int \<Rightarrow> int \<Rightarrow> bytes \<Rightarrow> MutableState" where
  "AddActivityTaskCompletedEvent ms scheduleID startedID result =
     (appendEvent (ActivityTaskCompletedEvent scheduleID startedID result) ms)
       \<lparr>msPendingActivities := (msPendingActivities ms)(scheduleID := None)\<rparr>"

definition UpdateActivityProgress :: "MutableState \<Rightarrow> int \<Rightarrow> ActivityInfo \<Rightarrow> bytes \<Rightarrow> int \<Rightarrow> MutableState" where
  "UpdateActivityProgress ms scheduleID ai details now =
     ms\<lparr>msPendingActivities :=
          (msPendingActivities ms)(scheduleID \<mapsto> ai\<lparr>aiDetails := details, aiLastHeartBeatUpdatedTime := now\<rparr>)\<rparr>"

definition AddDecisionTaskScheduledEvent :: "MutableState \<Rightarrow> MutableState" where
  "AddDecisionTaskScheduledEvent ms = (appendEvent DecisionTaskScheduledEvent ms)\<lparr>msHasPendingDecision := True\<rparr>"

text \<open>What the collaborators of an activity handler return.\<close>

record ActivityEnv =
  aeGetActiveDomainByID :: "string \<Rightarrow> error + DomainCacheEntry"
  aeDeserialize :: "bytes \<Rightarrow> error + TaskToken"
  aeConditionalRetryCount :: nat
  aeLoadWorkflowExecution :: "nat \<Rightarrow> error + MutableState"
  aeUpdateWorkflowExecutionAsActive :: "nat \<Rightarrow> error option"
  aeAddEventFails :: bool
  aeNow :: int

datatype DriverEffect =
    LoadWorkflowExecution nat
  | ClearCache
  | UpdateWorkflowExecutionAsActive MutableState "error option"

text \<open>
  Modelled from the spec: the mutation driver \<^verbatim>\<open>workflow.UpdateWithAction\<close> is outside the
  sources. It loads the mutable state, invokes the action and commits through the
  update-as-active path, scheduling a decision first when asked to and none is pending; on
  the stale-state sentinel it clears the cache and reloads, on a conflict reply it reloads,
  both up to the retry count; any other error of the action is returned to the caller with
  nothing committed. The error after the last attempt is not named by the spec and no
  theorem below depends on it. An action is a Go closure: besides the new mutable state it
  yields the values it assigns to the variables it captures (\<open>'a\<close>), which the handler
  reads once the driver has returned without an error.
\<close>

function UpdateWithActionLoop ::
  "ActivityEnv \<Rightarrow> bool \<Rightarrow> (MutableState \<Rightarrow> error + MutableState \<times> 'a) \<Rightarrow> nat \<Rightarrow>
     (error + 'a) \<times> DriverEffect list" where
  "UpdateWithActionLoop env createDecision action attempt =
     (if \<not> attempt < aeConditionalRetryCount env then (Inl ErrMaxAttemptsExceeded, [])
      else
        (case aeLoadWorkflowExecution env attempt of
           Inl err \<Rightarrow> (Inl err, [LoadWorkflowExecution attempt])
         | Inr mutableState \<Rightarrow>
             (case action mutableState of
                Inl err \<Rightarrow>
                  (if err = ErrStaleState then
                     (let (r, effs) = UpdateWithActionLoop env createDecision action (Suc attempt)
                      in (r, [LoadWorkflowExecution attempt, ClearCache] @ effs))
                   else (Inl err, [LoadWorkflowExecution attempt]))
              | Inr (ms', captured) \<Rightarrow>
                  (let ms'' = (if createDecision \<and> \<not> msHasPendingDecision ms'
                               then AddDecisionTaskScheduledEvent ms' else ms')
                   in (case aeUpdateWorkflowExecutionAsActive env attempt of
                         None \<Rightarrow>
                           (Inr captured, [LoadWorkflowExecution attempt,
                                           UpdateWorkflowExecutionAsActive ms'' None])
                       | Some updateErr \<Rightarrow>
                           (if updateErr = ErrConflict then
                              (let (r, effs) = UpdateWithActionLoop env createDecision action (Suc attempt)
                               in (r, [LoadWorkflowExecution attempt,
                                       UpdateWorkflowExecutionAsActive ms'' (Some updateErr)] @ effs))
                            else (Inl updateErr, [LoadWorkflowExecution attempt,
                                                  UpdateWorkflowExecutionAsActive ms'' (Some updateErr)])))))))"
  by pat_completeness auto
termination
  by (relation "measure (\<lambda>(env, createDecision, action, attempt). aeConditionalRetryCount env - attempt)") auto

definition UpdateWithAction ::
  "ActivityEnv \<Rightarrow> bool \<Rightarrow> (MutableState \<Rightarrow> error + MutableState \<times> 'a) \<Rightarrow>
     (error + 'a) \<times> DriverEffect list" where
  "UpdateWithAction env createDecision action = UpdateWithActionLoop env createDecision action 0"

subsection \<open>\<^verbatim>\<open>RespondActivityTaskCompleted\<close>\<close>

record RespondActivityTaskCompletedRequest =
  rcTaskToken :: bytes
  rcResult :: bytes

definition respondActivityTaskCompletedAction ::
  "ActivityEnv \<Rightarrow> TaskToken \<Rightarrow> RespondActivityTaskCompletedRequest \<Rightarrow> MutableState \<Rightarrow>
     error + MutableState \<times> unit" where
  "respondActivityTaskCompletedAction env token request mutableState =
     (case activityTaskChecks token mutableState of
        Inl err \<Rightarrow> Inl err
      | Inr (scheduleID, ai) \<Rightarrow>
          (if aeAddEventFails env then
             Inl (InternalServiceError ''Unable to add ActivityTaskCompleted event to history.'')
           else Inr (AddActivityTaskCompletedEvent mutableState scheduleID (aiStartedID ai) (rcResult request),
                     ())))"

definition RespondActivityTaskCompleted ::
  "ActivityEnv \<Rightarrow> string \<Rightarrow> RespondActivityTaskCompletedRequest \<Rightarrow> error option \<times> DriverEffect list" where
  "RespondActivityTaskCompleted env domainUUID request =
     (case aeGetActiveDomainByID env domainUUID of
        Inl err \<Rightarrow> (Some err, [])
      | Inr domainEntry \<Rightarrow>
          (case aeDeserialize env (rcTaskToken request) of
             Inl err0 \<Rightarrow> (Some ErrDeserializingToken, [])
           | Inr token \<Rightarrow>
               (let (r, effs) = UpdateWithAction env True (respondActivityTaskCompletedAction env token request)
                in (resultError r, effs))))"

subsection \<open>\<^verbatim>\<open>RecordActivityTaskHeartbeat\<close>\<close>

record RecordActivityTaskHeartbeatRequest =
  hbTaskToken :: bytes
  hbDetails :: bytes

text \<open>The action yields the value it assigns to the captured \<^verbatim>\<open>cancelRequested\<close>.\<close>

definition recordActivityTaskHeartbeatAction ::
  "ActivityEnv \<Rightarrow> TaskToken \<Rightarrow> RecordActivityTaskHeartbeatRequest \<Rightarrow> MutableState \<Rightarrow>
     error + MutableState \<times> bool" where
  "recordActivityTaskHeartbeatAction env token request mutableState =
     (case activityTaskChecks token mutableState of
        Inl err \<Rightarrow> Inl err
      | Inr (scheduleID, ai) \<Rightarrow>
          (let cancelRequested = aiCancelRequested ai
           in Inr (UpdateActivityProgress mutableState scheduleID ai (hbDetails request) (aeNow env),
                   cancelRequested)))"

text \<open>The response is its \<^verbatim>\<open>CancelRequested\<close> field.\<close>

definition RecordActivityTaskHeartbeat ::
  "ActivityEnv \<Rightarrow> string \<Rightarrow> RecordActivityTaskHeartbeatRequest \<Rightarrow> (error + bool) \<times> DriverEffect list" where
  "RecordActivityTaskHeartbeat env domainUUID request =
     (case aeGetActiveDomainByID env domainUUID of
        Inl err \<Rightarrow> (Inl err, [])
      | Inr domainEntry \<Rightarrow>
          (case aeDeserialize env (hbTaskToken request) of
             Inl err0 \<Rightarrow> (Inl ErrDeserializingToken, [])
           | Inr token \<Rightarrow>
               UpdateWithAction env False (recordActivityTaskHeartbeatAction env token request)))"

section \<open>Reading the mutable state\<close>

record GetMutableStateResponse =
  rsRunID :: string
  rsNextEventID :: int
  rsLastFirstEventID :: int
  rsPreviousStartedEventID :: int
  rsIsWorkflowRunning :: bool
  rsCurrentBranchToken :: bytes
  rsWorkflowState :: int
  rsWorkflowCloseState :: int
  rsIsStickyTaskListEnabled :: bool
  rsExecutionInfo :: ExecutionInfo

text \<open>
  What the cache and the store return to the \<open>k\<close>-th read of a run (the reads of one
  request are numbered from 0: a later read may see a later state).
\<close>

record ReadEnv =
  reGetOrCreateWorkflowExecution :: "nat \<Rightarrow> error option"
  reLoadWorkflowExecution :: "nat \<Rightarrow> error + MutableState"

definition getMutableState :: "ReadEnv \<Rightarrow> nat \<Rightarrow> error + GetMutableStateResponse" where
  "getMutableState env k =
     (case reGetOrCreateWorkflowExecution env k of
        Some retError \<Rightarrow> Inl retError
      | None \<Rightarrow>
          (case reLoadWorkflowExecution env k of
             Inl retError \<Rightarrow> Inl retError
           | Inr mutableState \<Rightarrow>
               (case msCurrentBranchToken mutableState of
                  Inl err \<Rightarrow> Inl err
                | Inr currentBranchToken \<Rightarrow>
                    Inr \<lparr> rsRunID = msRunID mutableState,
                          rsNextEventID = msNextEventID mutableState,
                          rsLastFirstEventID = msLastFirstEventID mutableState,
                          rsPreviousStartedEventID = msPreviousStartedEventID mutableState,
                          rsIsWorkflowRunning = IsWorkflowExecutionRunning mutableState,
                          rsCurrentBranchToken = currentBranchToken,
                          rsWorkflowState = msState mutableState,
                          rsWorkflowCloseState = msCloseStatus mutableState,
                          rsIsStickyTaskListEnabled = msIsStickyTaskListEnabled mutableState,
                          rsExecutionInfo = msExecutionInfo mutableState \<rparr>)))"

subsection \<open>\<^verbatim>\<open>getMutableStateOrPolling\<close>\<close>

text \<open>
  \<^verbatim>\<open>uuid.Parse\<close> is a library function: \<open>uuidParses\<close> says whether it accepts the
  string.
\<close>

definition ValidateDomainUUID :: "(string \<Rightarrow> bool) \<Rightarrow> string \<Rightarrow> error option" where
  "ValidateDomainUUID uuidParses domainUUID =
     (if domainUUID = [] then Some (BadRequestError ''Missing domain UUID.'')
      else if \<not> uuidParses domainUUID then Some (BadRequestError ''Invalid domain UUID.'')
      else None)"

record GetMutableStateRequest =
  gmDomainUUID :: string
  gmWorkflowID :: string
  gmRunID :: string
  gmExpectedNextEventID :: int
  gmCurrentBranchToken :: "bytes option"

record HistoryEventNotification =
  evLastFirstEventID :: int
  evNextEventID :: int
  evPreviousStartedEventID :: int
  evWorkflowState :: int
  evWorkflowCloseState :: int
  evCurrentBranchToken :: bytes

text \<open>What one round of the \<^verbatim>\<open>select\<close> of the long poll receives.\<close>

datatype SelectOutcome =
    Notified HistoryEventNotification
  | TimerFired
  | ContextDone error

record PollEnv =
  peUuidParses :: "string \<Rightarrow> bool"
  peRead :: ReadEnv
  peWatchHistoryEvent :: "error option"
  peGetDomainName :: "error option"
  peSelects :: "SelectOutcome list"

datatype NotifierEffect = WatchHistoryEvent | UnwatchHistoryEvent

text \<open>\<^verbatim>\<open>bytes.Equal\<close> on a request token that may be nil: nil equals the empty slice.\<close>

definition bytes_Equal :: "bytes option \<Rightarrow> bytes \<Rightarrow> bool" where
  "bytes_Equal a b \<longleftrightarrow> (case a of None \<Rightarrow> [] | Some x \<Rightarrow> x) = b"

text \<open>The local variable \<^verbatim>\<open>expectedNextEventID\<close>: the request's, or the first event id for 0.\<close>

definition expectedNextEventID :: "GetMutableStateRequest \<Rightarrow> int" where
  "expectedNextEventID request =
     (if gmExpectedNextEventID request \<noteq> 0 then gmExpectedNextEventID request else FirstEventID)"

text \<open>
  The \<^verbatim>\<open>for\<close>/\<^verbatim>\<open>select\<close> loop of the long poll over the outcomes the environment
  provides; \<open>None\<close> when they run out before the loop returns.
\<close>

fun pollLoop ::
  "bytes option \<Rightarrow> int \<Rightarrow> GetMutableStateResponse \<Rightarrow> SelectOutcome list \<Rightarrow>
     (error + GetMutableStateResponse) option" where
  "pollLoop token expected response [] = None"
| "pollLoop token expected response (TimerFired # rest) = Some (Inr response)"
| "pollLoop token expected response (ContextDone err # rest) = Some (Inl err)"
| "pollLoop token expected response (Notified event # rest) =
     (let response' = response\<lparr> rsLastFirstEventID := evLastFirstEventID event,
                                  rsNextEventID := evNextEventID event,
                                  rsIsWorkflowRunning := (evWorkflowCloseState event = WorkflowCloseStatusNone),
                                  rsPreviousStartedEventID := evPreviousStartedEventID event,
                                  rsWorkflowState := evWorkflowState event,
                                  rsWorkflowCloseState := evWorkflowCloseState event \<rparr>
      in if \<not> bytes_Equal token (evCurrentBranchToken event) then
           Some (Inl (CurrentBranchChangedError
                        ''Current branch token and request branch token doesn't match''
                        (evCurrentBranchToken event)))
         else if expected < rsNextEventID response' \<or> \<not> rsIsWorkflowRunning response' then
           Some (Inr response')
         else pollLoop token expected response' rest)"

definition getMutableStateOrPolling ::
  "PollEnv \<Rightarrow> GetMutableStateRequest \<Rightarrow> (error + GetMutableStateResponse) option \<times> NotifierEffect list" where
  "getMutableStateOrPolling env request =
     (case ValidateDomainUUID (peUuidParses env) (gmDomainUUID request) of
        Some err \<Rightarrow> (Some (Inl err), [])
      | None \<Rightarrow>
          (case getMutableState (peRead env) 0 of
             Inl err \<Rightarrow> (Some (Inl err), [])
           | Inr response \<Rightarrow>
               (let token = (case gmCurrentBranchToken request of
                               None \<Rightarrow> Some (rsCurrentBranchToken response)
                             | Some t \<Rightarrow> Some t);
                    expected = expectedNextEventID request
                in if \<not> bytes_Equal token (rsCurrentBranchToken response) then
                     (Some (Inl (CurrentBranchChangedError
                                   ''current branch token and request branch token doesn't match''
                                   (rsCurrentBranchToken response))), [])
                   else if expected \<ge> rsNextEventID response \<and> rsIsWorkflowRunning response then
                     (case peWatchHistoryEvent env of
                        Some err \<Rightarrow> (Some (Inl err), [])
                      | None \<Rightarrow>
                          (case getMutableState (peRead env) 1 of
                             Inl err \<Rightarrow> (Some (Inl err), [WatchHistoryEvent, UnwatchHistoryEvent])
                           | Inr response2 \<Rightarrow>
                               (if \<not> bytes_Equal token (rsCurrentBranchToken response2) then
                                  (Some (Inl (CurrentBranchChangedError
                                                ''current branch token and request branch token doesn't match''
                                                (rsCurrentBranchToken response2))),
                                   [WatchHistoryEvent, UnwatchHistoryEvent])
                                else if expected < rsNextEventID response2 \<or> \<not> rsIsWorkflowRunning response2 then
                                  (Some (Inr response2), [WatchHistoryEvent, UnwatchHistoryEvent])
                                else
                                  (case peGetDomainName env of
                                     Some err \<Rightarrow> (Some (Inl err), [WatchHistoryEvent, UnwatchHistoryEvent])
                                   | None \<Rightarrow>
                                       (let r = pollLoop token expected response2 (peSelects env)
                                        in (r, if r = None then [WatchHistoryEvent]
                                               else [WatchHistoryEvent, UnwatchHistoryEvent]))))))
                   else (Some (Inr response), []))))"

section \<open>QueryWorkflow\<close>




















section \<open>Domain failover callback\<close>

record FailoverMarkerTask =
  fmVersion :: int
  fmDomainID :: string

record FailoverEnv =
  feCurrentClusterName :: string
  feClusterNameForFailoverVersion :: "int \<Rightarrow> string"
  feReplicateFailoverMarkers :: "FailoverMarkerTask list \<Rightarrow> error option"
  feNow :: int

datatype QueueProcessor = TransferProcessor | TimerProcessor

datatype FailoverEffect =
    LockTaskProcessing QueueProcessor
  | UnlockTaskProcessing QueueProcessor
  | FailoverDomain QueueProcessor "string set"
  | NotifyNewTask QueueProcessor string "int option"
  | ReplicateFailoverMarkers "FailoverMarkerTask list" "error option"
  | UpdateDomainNotificationVersion int

text \<open>The condition of \<^verbatim>\<open>failoverPredicate\<close>: the domain becomes active here.\<close>

definition failoverPredicate :: "FailoverEnv \<Rightarrow> int \<Rightarrow> DomainCacheEntry \<Rightarrow> bool" where
  "failoverPredicate env shardNotificationVersion nextDomain \<longleftrightarrow>
     deIsGlobalDomain nextDomain \<and>
     deFailoverNotificationVersion nextDomain \<ge> shardNotificationVersion \<and>
     deActiveClusterName nextDomain = feCurrentClusterName env"

text \<open>The condition under which the second loop appends a failover marker for a domain.\<close>

definition needsFailoverMarker :: "FailoverEnv \<Rightarrow> int \<Rightarrow> DomainCacheEntry \<Rightarrow> bool" where
  "needsFailoverMarker env shardNotificationVersion nextDomain \<longleftrightarrow>
     deIsGlobalDomain nextDomain \<and>
     deFailoverNotificationVersion nextDomain \<ge> shardNotificationVersion \<and>
     deActiveClusterName nextDomain \<noteq> feCurrentClusterName env \<and>
     dePreviousFailoverVersion nextDomain \<noteq> InitialPreviousFailoverVersion \<and>
     feClusterNameForFailoverVersion env (dePreviousFailoverVersion nextDomain) = feCurrentClusterName env"

definition failoverMarkerTasks :: "FailoverEnv \<Rightarrow> int \<Rightarrow> DomainCacheEntry list \<Rightarrow> FailoverMarkerTask list" where
  "failoverMarkerTasks env shardNotificationVersion nextDomains =
     map (\<lambda>nextDomain. \<lparr> fmVersion = deFailoverVersion nextDomain, fmDomainID = deID nextDomain \<rparr>)
       (filter (needsFailoverMarker env shardNotificationVersion) nextDomains)"

text \<open>The prepare callback locks task processing in both queue processors.\<close>

definition failoverPrepareCallback :: "FailoverEffect list" where
  "failoverPrepareCallback = [LockTaskProcessing TransferProcessor, LockTaskProcessing TimerProcessor]"

text \<open>
  The commit callback: from the shard's domain-notification version to the new one, with
  the calls made. Notification versions are \<^verbatim>\<open>int64\<close>: the new version is the last
  domain's plus 1 in \<^verbatim>\<open>int64\<close> arithmetic. The error of
  \<^verbatim>\<open>UpdateDomainNotificationVersion\<close> is discarded by the code; the model takes the
  update to set the version.
\<close>

definition failoverCommitCallback ::
  "FailoverEnv \<Rightarrow> int \<Rightarrow> DomainCacheEntry list \<Rightarrow> DomainCacheEntry list \<Rightarrow> int \<times> FailoverEffect list" where
  "failoverCommitCallback env shardNotificationVersion prevDomains nextDomains =
     (let unlock = [UnlockTaskProcessing TransferProcessor, UnlockTaskProcessing TimerProcessor]
      in if length nextDomains = 0 then (shardNotificationVersion, unlock)
         else
           (let failoverDomainIDs = set (map deID (filter (failoverPredicate env shardNotificationVersion) nextDomains));
                failover =
                  (if failoverDomainIDs \<noteq> {} then
                     [FailoverDomain TransferProcessor failoverDomainIDs,
                      FailoverDomain TimerProcessor failoverDomainIDs,
                      NotifyNewTask TransferProcessor (feCurrentClusterName env) None,
                      NotifyNewTask TimerProcessor (feCurrentClusterName env) (Some (feNow env))]
                   else []);
                tasks = failoverMarkerTasks env shardNotificationVersion nextDomains;
                newVersion = wrap_int64 (deNotificationVersion (last nextDomains) + 1)
            in if length tasks > 0 then
                 (case feReplicateFailoverMarkers env tasks of
                    Some err \<Rightarrow>
                      (shardNotificationVersion,
                       failover @ [ReplicateFailoverMarkers tasks (Some err)] @ unlock)
                  | None \<Rightarrow>
                      (newVersion,
                       failover @ [ReplicateFailoverMarkers tasks None,
                                   UpdateDomainNotificationVersion newVersion] @ unlock))
               else (newVersion, failover @ [UpdateDomainNotificationVersion newVersion] @ unlock)))"

text \<open>
  The spec's words for the domains that get a failover marker, to be compared with the
  condition of the second loop. A domain of the batch is in failover when its
  failover-notification version is at least the version the shard has recorded, as for the
  domains becoming active; it is failing away from this cluster when its active cluster is
  another one. Its previous failover version maps to this cluster when the domain has one
  (the value is not the initial one, that of a domain that never failed over) and the
  cluster metadata maps it to this cluster.
\<close>

definition spec_failingAway :: "FailoverEnv \<Rightarrow> int \<Rightarrow> DomainCacheEntry \<Rightarrow> bool" where
  "spec_failingAway env shardNotificationVersion d \<longleftrightarrow>
     deFailoverNotificationVersion d \<ge> shardNotificationVersion \<and>
     deActiveClusterName d \<noteq> feCurrentClusterName env"

definition spec_previousVersionHere :: "FailoverEnv \<Rightarrow> DomainCacheEntry \<Rightarrow> bool" where
  "spec_previousVersionHere env d \<longleftrightarrow>
     dePreviousFailoverVersion d \<noteq> InitialPreviousFailoverVersion \<and>
     feClusterNameForFailoverVersion env (dePreviousFailoverVersion d) = feCurrentClusterName env"

definition spec_failoverMarkers :: "FailoverEnv \<Rightarrow> int \<Rightarrow> DomainCacheEntry list \<Rightarrow> FailoverMarkerTask list" where
  "spec_failoverMarkers env shardNotificationVersion nextDomains =
     map (\<lambda>d. \<lparr> fmVersion = deFailoverVersion d, fmDomainID = deID d \<rparr>)
       (filter (\<lambda>d. deIsGlobalDomain d \<and> spec_failingAway env shardNotificationVersion d \<and>
                     spec_previousVersionHere env d)
          nextDomains)"

section \<open>Observations on a start and example inputs\<close>

text \<open>
  The helper reaches its first \<^verbatim>\<open>CreateWorkflowExecution\<close> holding \<open>p\<close>: the domain is
  registered, the request is valid, the current-run lock was acquired and the first events
  of the new run were persisted.
\<close>

definition startChildTimeout :: "StartEnv \<Rightarrow> Context \<Rightarrow> int" where
  "startChildTimeout env ctx = newChildContext (envNow env) ctx"

definition startOverridden ::
  "StartEnv \<Rightarrow> HistoryStartWorkflowExecutionRequest \<Rightarrow> HistoryStartWorkflowExecutionRequest" where
  "startOverridden env startRequest =
     startRequest\<lparr>StartRequest :=
       overrideStartWorkflowExecutionRequest (envMaxDecisionStartToCloseSeconds env) (StartRequest startRequest)\<rparr>"

definition startReachesLock ::
  "StartEnv \<Rightarrow> HistoryStartWorkflowExecutionRequest \<Rightarrow> DomainCacheEntry \<Rightarrow> bool" where
  "startReachesLock env startRequest domainEntry \<longleftrightarrow>
     deStatus domainEntry = DomainStatusRegistered \<and>
     validateStartWorkflowExecutionRequest (StartRequest startRequest) (envMaxIDLengthLimit env) = None"

definition startReachesCreate ::
  "StartEnv \<Rightarrow> Context \<Rightarrow> HistoryStartWorkflowExecutionRequest \<Rightarrow> DomainCacheEntry \<Rightarrow>
     signalWithStartArg option \<Rightarrow> StartPrepared \<Rightarrow> bool" where
  "startReachesCreate env ctx startRequest domainEntry sigArg p \<longleftrightarrow>
     startReachesLock env startRequest domainEntry \<and>
     envGetOrCreateCurrent env (startChildTimeout env ctx) = None \<and>
     (case startPrepare env (startOverridden env startRequest) domainEntry sigArg of
        Inl _ \<Rightarrow> False
      | Inr (p', _) \<Rightarrow> p' = p)"

text \<open>The first creation attempt of a start that holds \<open>p\<close>, and what it returned.\<close>

definition firstCreate :: "StartEnv \<Rightarrow> StartPrepared \<Rightarrow> error option" where
  "firstCreate env p =
     envCreateWorkflowExecution env (spCreateMode p) (spPrevRunID p) (spPrevLastWriteVersion p)"

text \<open>
  The start was rejected with \<^verbatim>\<open>WorkflowExecutionAlreadyStarted\<close> naming the prior run;
  the start went on to create the run in workflow-id-reuse mode against the prior run.
\<close>

definition rejectedAlreadyStarted :: "AlreadyStartedInfo \<Rightarrow> error + string \<Rightarrow> bool" where
  "rejectedAlreadyStarted t r =
     (case r of
        Inl (WorkflowExecutionAlreadyStartedError msg requestID runID) \<Rightarrow>
          requestID = asStartRequestID t \<and> runID = asRunID t
      | _ \<Rightarrow> False)"

definition isReuseCreate :: "AlreadyStartedInfo \<Rightarrow> Effect \<Rightarrow> bool" where
  "isReuseCreate t eff =
     (case eff of
        CreateWorkflowExecution mode prevRunID prevLastWriteVersion ms err \<Rightarrow>
          mode = CreateWorkflowModeWorkflowIDReuse \<and> prevRunID = asRunID t \<and>
          prevLastWriteVersion = asLastWriteVersion t
      | _ \<Rightarrow> False)"

definition reuseAccepted :: "AlreadyStartedInfo \<Rightarrow> Effect list \<Rightarrow> bool" where
  "reuseAccepted t effs = list_ex (isReuseCreate t) effs"

definition isInternalServiceErrorResult :: "error + string \<Rightarrow> bool" where
  "isInternalServiceErrorResult r = (case r of Inl (InternalServiceError msg) \<Rightarrow> True | _ \<Rightarrow> False)"

text \<open>Whether a call wrote history events or committed a transaction: what it left in the stores.\<close>

definition persistsEvents :: "Effect \<Rightarrow> bool" where
  "persistsEvents eff = (case eff of PersistFirstWorkflowEvents runID events None \<Rightarrow> events \<noteq> [] | _ \<Rightarrow> False)"

definition commitsTerminateAndStart :: "Effect \<Rightarrow> bool" where
  "commitsTerminateAndStart eff =
     (case eff of UpdateWorkflowExecutionWithNewAsActive prior new None \<Rightarrow> True | _ \<Rightarrow> False)"




definition createsRun :: "Effect \<Rightarrow> bool" where
  "createsRun eff = (case eff of CreateWorkflowExecution mode prevRunID v ms None \<Rightarrow> True | _ \<Rightarrow> False)"

definition exRequest :: StartWorkflowExecutionRequest where
  "exRequest =
     \<lparr> DomainName = ''example-domain'', WorkflowID = ''wf'', WorkflowType = Some ''wf-type'',
       TaskList = Some ''tl'', ExecutionStartToCloseTimeoutSeconds = Some 60,
       TaskStartToCloseTimeoutSeconds = Some 10, RequestID = ''request-2'',
       WorkflowIDReusePolicy = RejectDuplicate, RetryPolicy = None, CronSchedule = [],
       DelayStartSeconds = 0 \<rparr>"

definition exStart :: HistoryStartWorkflowExecutionRequest where
  "exStart =
     \<lparr> DomainUUID = ''domain-id'', StartRequest = exRequest, ParentExecutionInfo = None,
       FirstDecisionTaskBackoffSeconds = None, ExpirationTimestamp = None \<rparr>"

definition exDomain :: DomainCacheEntry where
  "exDomain =
     \<lparr> deID = ''domain-id'', deName = ''example-domain'', deStatus = DomainStatusRegistered,
       deIsGlobalDomain = False, deActiveClusterName = ''cluster-a'', deFailoverVersion = 0,
       deFailoverNotificationVersion = 0, dePreviousFailoverVersion = - 1,
       deNotificationVersion = 0, deIsDomainActive = True \<rparr>"

definition exInfo :: ExecutionInfo where
  "exInfo =
     \<lparr> eiWorkflowTypeName = ''wf-type'', eiTaskList = ''tl'', eiStickyTaskList = [],
       eiStickyScheduleToStartTimeout = 0, eiClientImpl = [], eiClientFeatureVersion = [] \<rparr>"

definition exFresh :: "string \<Rightarrow> MutableState" where
  "exFresh runID =
     \<lparr> msRunID = runID, msCreateRequestID = [], msState = WorkflowStateCreated,
       msCloseStatus = WorkflowCloseStatusNone, msNextEventID = 1, msLastFirstEventID = 0,
       msPreviousStartedEventID = 0, msCurrentBranchToken = Inr [], msIsStickyTaskListEnabled = False,
       msExecutionInfo = exInfo, msCurrentVersion = 0, msLastWriteVersion = Inr 0, msHistory = [],
       msPendingActivities = Map.empty, msActivityIDs = Map.empty, msHasPendingDecision = False,
       msHasInFlightDecision = False, msBufferedQueryIDs = [] \<rparr>"

definition exPrior :: AlreadyStartedInfo where
  "exPrior =
     \<lparr> asStartRequestID = ''request-1'', asRunID = ''run-1'', asState = WorkflowStateCompleted,
       asCloseStatus = WorkflowCloseStatusCompleted, asLastWriteVersion = 0 \<rparr>"

definition exRunning :: MutableState where
  "exRunning =
     (exFresh ''run-1'')\<lparr> msCreateRequestID := ''request-1'', msState := WorkflowStateRunning,
       msNextEventID := 3,
       msHistory := [WorkflowExecutionStartedEvent ''run-1'' ''request-1'', DecisionTaskScheduledEvent],
       msHasPendingDecision := True \<rparr>"

definition exStartEnv :: "AlreadyStartedInfo \<Rightarrow> StartEnv" where
  "exStartEnv prior =
     \<lparr> envMaxIDLengthLimit = 1000, envMaxDecisionStartToCloseSeconds = 240, envNow = 1000,
       envWallNow = 1000,
       envNewRunID = ''run-2'', envGetOrCreateCurrent = (\<lambda>timeout. None),
       envCreateMutableState = (\<lambda>runID. Inr (exFresh runID)),
       envAddStartedEventFails = False, envAddSignaledFails = False, envAddFirstDecisionErr = None,
       envCloseTransactionErr = None, envPersistFirstWorkflowEvents = Inr 100,
       envCreateWorkflowExecution =
         (\<lambda>mode prevRunID prevLastWriteVersion.
            if mode = CreateWorkflowModeBrandNew then Some (PersistenceAlreadyStarted prior) else None),
       envLoadOnce = (\<lambda>runID. Inr exRunning),
       envConditionalRetryCount = 5,
       envTerminateWorkflowErr = (\<lambda>attempt. None),
       envReloadMutableStateErr = (\<lambda>attempt. None),
       envUpdateWithNewAsActive = (\<lambda>attempt. None),
       envCronBackoff = (\<lambda>cron start close. 0) \<rparr>"

definition exCtx :: Context where
  "exCtx = \<lparr> ctxDeadline = None, ctxHasDone = False, ctxErr = None \<rparr>"


definition exStarted :: MutableState where
  "exStarted =
     (exFresh ''run-2'')\<lparr> msCreateRequestID := ''request-2'', msNextEventID := 3,
       msHistory := [WorkflowExecutionStartedEvent ''run-2'' ''request-2'', DecisionTaskScheduledEvent],
       msHasPendingDecision := True \<rparr>"

definition exPrepared :: StartPrepared where
  "exPrepared =
     \<lparr> spRunID = ''run-2'', spCurMutableState = exStarted, spHistorySize = 100,
       spCreateMode = CreateWorkflowModeBrandNew, spPrevRunID = [], spPrevLastWriteVersion = 0 \<rparr>"

text \<open>A caller whose deadline (400) has passed at the shard's time (1000).\<close>

definition exExpiredCtx :: Context where
  "exExpiredCtx = \<lparr> ctxDeadline = Some 400, ctxHasDone = True, ctxErr = Some ContextDeadlineExceeded \<rparr>"

text \<open>A start under TerminateIfRunning against the running prior run \<open>run-1\<close>.\<close>

definition exRunningPrior :: AlreadyStartedInfo where
  "exRunningPrior = exPrior\<lparr>asState := WorkflowStateRunning, asCloseStatus := WorkflowCloseStatusNone\<rparr>"

definition exTerminateStart :: HistoryStartWorkflowExecutionRequest where
  "exTerminateStart = exStart\<lparr>StartRequest := exRequest\<lparr>WorkflowIDReusePolicy := TerminateIfRunning\<rparr>\<rparr>"

text \<open>
  A start request with a retry policy that expires after \<open>2147483647\<close> seconds, the largest
  \<^verbatim>\<open>int32\<close>, and a start delay of one second; no cron schedule (the cron backoff is 0).
\<close>

definition exLongExpiry :: StartWorkflowExecutionRequest where
  "exLongExpiry =
     exRequest\<lparr> RetryPolicy := Some \<lparr> InitialIntervalInSeconds = 1, BackoffCoefficient = 1,
                                     MaximumIntervalInSeconds = 0, MaximumAttempts = 0,
                                     ExpirationIntervalInSeconds = 2147483647 \<rparr>,
                DelayStartSeconds := 1 \<rparr>"



text \<open>
  Example inputs of the activity handlers: run \<open>run-1\<close> is running with one pending
  activity, scheduled at event 5, started at event 6, on its third attempt (attempt 2), with
  cancellation requested.
\<close>

definition exActivity :: ActivityInfo where
  "exActivity =
     \<lparr> aiScheduleID = 5, aiActivityID = ''activity-1'', aiStartedID = 6, aiAttempt = 2,
       aiCancelRequested = True, aiCancelRequestID = 7, aiDetails = [], aiLastHeartBeatUpdatedTime = 0 \<rparr>"

definition exWithActivity :: MutableState where
  "exWithActivity =
     exRunning\<lparr> msNextEventID := 8, msPendingActivities := [5 \<mapsto> exActivity],
                msActivityIDs := [''activity-1'' \<mapsto> 5] \<rparr>"

definition exToken :: TaskToken where
  "exToken =
     \<lparr> ttWorkflowID = ''wf'', ttRunID = ''run-1'', ttScheduleID = 5, ttScheduleAttempt = 2,
       ttActivityID = [] \<rparr>"

definition exActivityEnv :: "TaskToken \<Rightarrow> ActivityEnv" where
  "exActivityEnv token =
     \<lparr> aeGetActiveDomainByID = (\<lambda>domainUUID. Inr exDomain),
       aeDeserialize = (\<lambda>taskToken. Inr token),
       aeConditionalRetryCount = 5,
       aeLoadWorkflowExecution = (\<lambda>attempt. Inr exWithActivity),
       aeUpdateWorkflowExecutionAsActive = (\<lambda>attempt. None),
       aeAddEventFails = False,
       aeNow = 2000 \<rparr>"

definition exCompleteRequest :: RespondActivityTaskCompletedRequest where
  "exCompleteRequest = \<lparr> rcTaskToken = [], rcResult = [1, 2, 3] \<rparr>"

definition exHeartbeatRequest :: RecordActivityTaskHeartbeatRequest where
  "exHeartbeatRequest = \<lparr> hbTaskToken = [], hbDetails = [4, 5] \<rparr>"

text \<open>
  The handler reaches the driver with \<open>token\<close>, and the driver's first load returns
  \<open>ms\<close>.
\<close>

definition activityCallLoads ::
  "ActivityEnv \<Rightarrow> string \<Rightarrow> bytes \<Rightarrow> TaskToken \<Rightarrow> MutableState \<Rightarrow> bool" where
  "activityCallLoads env domainUUID taskToken token ms \<longleftrightarrow>
     (case aeGetActiveDomainByID env domainUUID of Inl _ \<Rightarrow> False | Inr _ \<Rightarrow> True) \<and>
     aeDeserialize env taskToken = Inr token \<and>
     0 < aeConditionalRetryCount env \<and>
     aeLoadWorkflowExecution env 0 = Inr ms"

text \<open>A state handed to the store by the driver, whatever the store answered.\<close>

definition committedStates :: "DriverEffect list \<Rightarrow> MutableState list" where
  "committedStates effs =
     concat (map (\<lambda>e. case e of UpdateWorkflowExecutionAsActive ms r \<Rightarrow> [ms] | _ \<Rightarrow> []) effs)"

text \<open>
  Example inputs of the long poll and of the query: the reads of run \<open>run-1\<close> return its
  running state with next-event id 8 and branch token \<open>[1]\<close>.
\<close>

definition exReadState :: MutableState where
  "exReadState = exWithActivity\<lparr>msCurrentBranchToken := Inr [1], msPreviousStartedEventID := 4\<rparr>"

definition exReadEnv :: ReadEnv where
  "exReadEnv =
     \<lparr> reGetOrCreateWorkflowExecution = (\<lambda>k. None),
       reLoadWorkflowExecution = (\<lambda>k. Inr exReadState) \<rparr>"

definition exPollEnv :: PollEnv where
  "exPollEnv =
     \<lparr> peUuidParses = (\<lambda>s. True), peRead = exReadEnv, peWatchHistoryEvent = None,
       peGetDomainName = None, peSelects = [TimerFired] \<rparr>"

definition exPollRequest :: GetMutableStateRequest where
  "exPollRequest =
     \<lparr> gmDomainUUID = ''domain-id'', gmWorkflowID = ''wf'', gmRunID = ''run-1'',
       gmExpectedNextEventID = 7, gmCurrentBranchToken = Some [1] \<rparr>"

text \<open>
  The long poll passes the check of the domain id and its first read of the run finds the
  mutable state \<open>ms\<close> with current branch token \<open>current\<close>.
\<close>

definition pollReads :: "PollEnv \<Rightarrow> GetMutableStateRequest \<Rightarrow> MutableState \<Rightarrow> bytes \<Rightarrow> bool" where
  "pollReads env request ms current \<longleftrightarrow>
     ValidateDomainUUID (peUuidParses env) (gmDomainUUID request) = None \<and>
     reGetOrCreateWorkflowExecution (peRead env) 0 = None \<and>
     reLoadWorkflowExecution (peRead env) 0 = Inr ms \<and>
     msCurrentBranchToken ms = Inr current"











text \<open>
  Example inputs of the failover callback, on cluster \<open>cluster-a\<close> whose failover versions
  are the even numbers: domain \<open>d1\<close> (notification version 7) has failed over from
  \<open>cluster-a\<close> to \<open>cluster-b\<close>, domain \<open>d2\<close> (notification version 3) is local.
\<close>

definition exFailoverEnv :: FailoverEnv where
  "exFailoverEnv =
     \<lparr> feCurrentClusterName = ''cluster-a'',
       feClusterNameForFailoverVersion = (\<lambda>v. if v mod 2 = 0 then ''cluster-a'' else ''cluster-b''),
       feReplicateFailoverMarkers = (\<lambda>tasks. None),
       feNow = 3000 \<rparr>"

definition exFailedAway :: DomainCacheEntry where
  "exFailedAway =
     exDomain\<lparr> deID := ''d1'', deIsGlobalDomain := True, deActiveClusterName := ''cluster-b'',
               deFailoverVersion := 11, deFailoverNotificationVersion := 7,
               dePreviousFailoverVersion := 10, deNotificationVersion := 7, deIsDomainActive := False \<rparr>"

definition exLocal :: DomainCacheEntry where
  "exLocal = exDomain\<lparr> deID := ''d2'', deNotificationVersion := 3 \<rparr>"

section \<open>Theorems: starting a workflow\<close>

lemmas state_codes =
  WorkflowStateCreated_def WorkflowStateRunning_def WorkflowStateCompleted_def
  WorkflowStateZombie_def

lemmas close_codes =
  WorkflowCloseStatusNone_def WorkflowCloseStatusCompleted_def WorkflowCloseStatusFailed_def
  WorkflowCloseStatusCanceled_def WorkflowCloseStatusTerminated_def
  WorkflowCloseStatusContinuedAsNew_def WorkflowCloseStatusTimedOut_def

lemma override_fields:
  "RequestID (overrideStartWorkflowExecutionRequest m r) = RequestID r"
  "WorkflowID (overrideStartWorkflowExecutionRequest m r) = WorkflowID r"
  "WorkflowIDReusePolicy (overrideStartWorkflowExecutionRequest m r) = WorkflowIDReusePolicy r"
  by (simp_all add: overrideStartWorkflowExecutionRequest_def Let_def)

lemma startOverridden_fields:
  "RequestID (StartRequest (startOverridden env sr)) = RequestID (StartRequest sr)"
  "WorkflowID (StartRequest (startOverridden env sr)) = WorkflowID (StartRequest sr)"
  "WorkflowIDReusePolicy (StartRequest (startOverridden env sr)) = WorkflowIDReusePolicy (StartRequest sr)"
  "shouldTerminateAndStart (startOverridden env sr) st = shouldTerminateAndStart sr st"
  by (simp_all add: startOverridden_def override_fields shouldTerminateAndStart_def)

lemma startPrepare_effects:
  assumes "startPrepare env sr de sa = Inr (p, effs)"
  shows "effs = [PersistFirstWorkflowEvents (spRunID p) (msHistory (spCurMutableState p)) None]"
    and "spRunID p = envNewRunID env"
  using assms
  by (auto simp: startPrepare_def Let_def split: sum.splits option.splits if_splits)

lemma startWorkflowHelper_reaches:
  assumes "startReachesCreate env ctx sr de sa p"
  shows "startWorkflowHelper env ctx sr de sa =
     (let (r, effs') = startCreate env (startOverridden env sr) de (sa \<noteq> None) p
      in (r, [AcquireCurrentLock (startChildTimeout env ctx) None,
              PersistFirstWorkflowEvents (spRunID p) (msHistory (spCurMutableState p)) None] @ effs' @
             [ReleaseCurrentLock (resultError r)]))"
proof -
  from assms obtain effs where prep: "startPrepare env (startOverridden env sr) de sa = Inr (p, effs)"
    by (auto simp: startReachesCreate_def split: sum.splits)
  have effs: "effs = [PersistFirstWorkflowEvents (spRunID p) (msHistory (spCurMutableState p)) None]"
    by (rule startPrepare_effects(1) [OF prep])
  from assms have reg: "deStatus de = DomainStatusRegistered"
    and val: "validateStartWorkflowExecutionRequest (StartRequest sr) (envMaxIDLengthLimit env) = None"
    and lock: "envGetOrCreateCurrent env (newChildContext (envNow env) ctx) = None"
    by (simp_all add: startReachesCreate_def startReachesLock_def startChildTimeout_def)
  from prep have prep': "startPrepare env
       (sr\<lparr>StartRequest := overrideStartWorkflowExecutionRequest (envMaxDecisionStartToCloseSeconds env) (StartRequest sr)\<rparr>)
       de sa = Inr (p, effs)"
    by (simp add: startOverridden_def)
  show ?thesis
    unfolding startWorkflowHelper_def
    by (simp add: reg val lock prep' Let_def effs startOverridden_def startChildTimeout_def split: prod.splits)
qed

lemma startCreate_policy:
  assumes fc: "firstCreate env p = Some (PersistenceAlreadyStarted t)"
    and rid: "asStartRequestID t \<noteq> RequestID (StartRequest sr)"
    and ver: "\<not> msCurrentVersion (spCurMutableState p) < asLastWriteVersion t"
    and nts: "\<not> shouldTerminateAndStart sr (asState t)"
  shows "startCreate env sr de False p =
     (let created = [CreateWorkflowExecution (spCreateMode p) (spPrevRunID p) (spPrevLastWriteVersion p)
                       (spCurMutableState p) (Some (PersistenceAlreadyStarted t))]
      in case applyWorkflowIDReusePolicyHelper (asStartRequestID t) (asRunID t) (asState t)
                (asCloseStatus t) (WorkflowID (StartRequest sr)) (WorkflowIDReusePolicy (StartRequest sr)) of
           Some e \<Rightarrow> (Inl e, created)
         | None \<Rightarrow>
             (let err2 = envCreateWorkflowExecution env CreateWorkflowModeWorkflowIDReuse
                           (asRunID t) (asLastWriteVersion t);
                  created2 = created @ [CreateWorkflowExecution CreateWorkflowModeWorkflowIDReuse
                                          (asRunID t) (asLastWriteVersion t) (spCurMutableState p) err2]
              in (case err2 of Some e \<Rightarrow> (Inl e, created2) | None \<Rightarrow> (Inr (spRunID p), created2))))"
  using assms
  by (simp add: startCreate_def firstCreate_def asAlreadyStarted_def Let_def)

lemma reuseAccepted_simps:
  "reuseAccepted t [] = False"
  "reuseAccepted t (e # es) = (isReuseCreate t e \<or> reuseAccepted t es)"
  "reuseAccepted t (xs @ ys) = (reuseAccepted t xs \<or> reuseAccepted t ys)"
  by (simp_all add: reuseAccepted_def)

lemma isReuseCreate_simps:
  "isReuseCreate t (AcquireCurrentLock a b) = False"
  "isReuseCreate t (ReleaseCurrentLock c) = False"
  "isReuseCreate t (PersistFirstWorkflowEvents r evs o1) = False"
  "isReuseCreate t (CreateWorkflowExecution mode prevRunID v ms err) =
     (mode = CreateWorkflowModeWorkflowIDReuse \<and> prevRunID = asRunID t \<and> v = asLastWriteVersion t)"
  by (simp_all add: isReuseCreate_def)

subsection \<open>Evaluation of the example inputs\<close>

lemmas ex_defs = exRequest_def exStart_def exDomain_def exInfo_def exFresh_def exPrior_def exRunning_def
  exStartEnv_def exCtx_def exStarted_def exPrepared_def

lemmas ex_defs2 = exExpiredCtx_def exRunningPrior_def exTerminateStart_def exLongExpiry_def

lemmas start_defs = startWorkflowHelper_def startPrepare_def startCreate_def
  validateStartWorkflowExecutionRequest_def ValidateRetryPolicy_def overrideStartWorkflowExecutionRequest_def
  MinInt32_def getInt32_def getName_def newChildContext_def contextLockTimeout_def Millisecond_def
  addStartEventsAndTasks_def generateFirstDecisionTask_def AddWorkflowExecutionStartedEvent_def
  AddFirstDecisionTaskScheduled_def AddWorkflowExecutionSignaled_def appendEvent_def
  asAlreadyStarted_def shouldTerminateAndStart_def applyWorkflowIDReusePolicyHelper_def
  getWorkflowAlreadyStartedError_def FailedWorkflowCloseState_def resultError_def
  DomainStatusRegistered_def state_codes close_codes time_Sub_def maxDuration_def minDuration_def
  startReachesCreate_def startReachesLock_def startChildTimeout_def startOverridden_def firstCreate_def

lemma ex_reaches:
  "startReachesCreate (exStartEnv prior) exCtx
     (exStart\<lparr>StartRequest := exRequest\<lparr>WorkflowIDReusePolicy := pol\<rparr>\<rparr>) exDomain None exPrepared"
  by (simp add: ex_defs start_defs Let_def)

lemma ex_first: "firstCreate (exStartEnv prior) exPrepared = Some (PersistenceAlreadyStarted prior)"
  by (simp add: ex_defs start_defs)

subsection \<open>C1: the workflow-ID reuse policy\<close>

text \<open>
  C1 (as amended). For every plain Start (not a signal-with-start) that reaches its creation
  attempt, whose attempt fails with AlreadyStarted under a different request id, whose new
  mutable state's current version is not below the prior run's last-write version, and that
  does not take the terminate-and-start path (policy TerminateIfRunning with a created or
  running prior run), the workflow-ID reuse policy is applied against the prior run: if the
  prior state is created or running the call fails with WorkflowExecutionAlreadyStarted
  naming the prior run; if the prior state is completed, AllowDuplicate accepts (the start
  goes on to create the run in workflow-id-reuse mode against the prior run),
  AllowDuplicateFailedOnly accepts iff the prior close status is failed, canceled,
  terminated or timed-out and otherwise fails with WorkflowExecutionAlreadyStarted, and
  RejectDuplicate fails with WorkflowExecutionAlreadyStarted; any other prior state (zombie
  or unknown) fails with InternalServiceError.
\<close>

theorem C1_reuse_policy_on_start:
  assumes reach: "startReachesCreate env ctx sr de None p"
    and fc: "firstCreate env p = Some (PersistenceAlreadyStarted t)"
    and rid: "asStartRequestID t \<noteq> RequestID (StartRequest sr)"
    and ver: "\<not> msCurrentVersion (spCurMutableState p) < asLastWriteVersion t"
    and nts: "\<not> shouldTerminateAndStart sr (asState t)"
  shows "(asState t = WorkflowStateCreated \<or> asState t = WorkflowStateRunning \<longrightarrow>
            rejectedAlreadyStarted t (fst (startWorkflowHelper env ctx sr de None))) \<and>
         (asState t = WorkflowStateCompleted \<and> WorkflowIDReusePolicy (StartRequest sr) = AllowDuplicate \<longrightarrow>
            reuseAccepted t (snd (startWorkflowHelper env ctx sr de None))) \<and>
         (asState t = WorkflowStateCompleted \<and> WorkflowIDReusePolicy (StartRequest sr) = AllowDuplicateFailedOnly \<longrightarrow>
            (reuseAccepted t (snd (startWorkflowHelper env ctx sr de None)) \<longleftrightarrow>
               asCloseStatus t \<in> {WorkflowCloseStatusFailed, WorkflowCloseStatusCanceled,
                                   WorkflowCloseStatusTerminated, WorkflowCloseStatusTimedOut}) \<and>
            (\<not> reuseAccepted t (snd (startWorkflowHelper env ctx sr de None)) \<longrightarrow>
               rejectedAlreadyStarted t (fst (startWorkflowHelper env ctx sr de None)))) \<and>
         (asState t = WorkflowStateCompleted \<and> WorkflowIDReusePolicy (StartRequest sr) = RejectDuplicate \<longrightarrow>
            rejectedAlreadyStarted t (fst (startWorkflowHelper env ctx sr de None))) \<and>
         (asState t \<noteq> WorkflowStateCreated \<and> asState t \<noteq> WorkflowStateRunning \<and>
          asState t \<noteq> WorkflowStateCompleted \<longrightarrow>
            isInternalServiceErrorResult (fst (startWorkflowHelper env ctx sr de None)))"
proof -
  let ?sr = "startOverridden env sr"
  have rid': "asStartRequestID t \<noteq> RequestID (StartRequest ?sr)"
    using rid by (simp add: startOverridden_fields)
  have nts': "\<not> shouldTerminateAndStart ?sr (asState t)"
    using nts by (simp add: startOverridden_fields)
  note sc = startCreate_policy [OF fc rid' ver nts', of de, unfolded startOverridden_fields]
  note sw = startWorkflowHelper_reaches [OF reach]
  have modes: "spCreateMode p = CreateWorkflowModeBrandNew"
    using reach
    by (auto simp: startReachesCreate_def startPrepare_def Let_def
        split: sum.splits option.splits if_splits)
  show ?thesis
    unfolding sw
    by (simp add: sc Let_def applyWorkflowIDReusePolicyHelper_def getWorkflowAlreadyStartedError_def
        rejectedAlreadyStarted_def isInternalServiceErrorResult_def reuseAccepted_simps isReuseCreate_simps
        FailedWorkflowCloseState_def modes state_codes
        split: option.splits WorkflowIDReusePolicy.splits)
qed

text \<open>
  The theorem at the example start: policy AllowDuplicateFailedOnly against a prior run that
  completed with close status failed is accepted.
\<close>

theorem C1_reuse_policy_on_start_witness:
  "startReachesCreate (exStartEnv (exPrior\<lparr>asCloseStatus := WorkflowCloseStatusFailed\<rparr>)) exCtx
     (exStart\<lparr>StartRequest := exRequest\<lparr>WorkflowIDReusePolicy := AllowDuplicateFailedOnly\<rparr>\<rparr>)
     exDomain None exPrepared \<and>
   firstCreate (exStartEnv (exPrior\<lparr>asCloseStatus := WorkflowCloseStatusFailed\<rparr>)) exPrepared =
     Some (PersistenceAlreadyStarted (exPrior\<lparr>asCloseStatus := WorkflowCloseStatusFailed\<rparr>)) \<and>
   reuseAccepted (exPrior\<lparr>asCloseStatus := WorkflowCloseStatusFailed\<rparr>)
     (snd (startWorkflowHelper (exStartEnv (exPrior\<lparr>asCloseStatus := WorkflowCloseStatusFailed\<rparr>)) exCtx
        (exStart\<lparr>StartRequest := exRequest\<lparr>WorkflowIDReusePolicy := AllowDuplicateFailedOnly\<rparr>\<rparr>)
        exDomain None))"
proof -
  let ?t = "exPrior\<lparr>asCloseStatus := WorkflowCloseStatusFailed\<rparr>"
  let ?sr = "exStart\<lparr>StartRequest := exRequest\<lparr>WorkflowIDReusePolicy := AllowDuplicateFailedOnly\<rparr>\<rparr>"
  have h1: "startReachesCreate (exStartEnv ?t) exCtx ?sr exDomain None exPrepared"
    by (rule ex_reaches)
  have h2: "firstCreate (exStartEnv ?t) exPrepared = Some (PersistenceAlreadyStarted ?t)"
    by (rule ex_first)
  have h3: "asStartRequestID ?t \<noteq> RequestID (StartRequest ?sr)"
    by (simp add: ex_defs)
  have h4: "\<not> msCurrentVersion (spCurMutableState exPrepared) < asLastWriteVersion ?t"
    by (simp add: ex_defs)
  have h5: "\<not> shouldTerminateAndStart ?sr (asState ?t)"
    by (simp add: ex_defs shouldTerminateAndStart_def)
  have st: "asState ?t = WorkflowStateCompleted" and pol: "WorkflowIDReusePolicy (StartRequest ?sr) = AllowDuplicateFailedOnly"
    by (simp_all add: ex_defs)
  from C1_reuse_policy_on_start [OF h1 h2 h3 h4 h5] st pol
  have "reuseAccepted ?t (snd (startWorkflowHelper (exStartEnv ?t) exCtx ?sr exDomain None))"
    by simp
  with h1 h2 show ?thesis by simp
qed

text \<open>
  The claim as stated fails in two ways. A Start under RejectDuplicate whose creation attempt
  fails with AlreadyStarted under a different request id, against a completed prior run
  whose last-write version (5) exceeds the new mutable state's current version (0), fails
  with DomainNotActive, not with WorkflowExecutionAlreadyStarted. And a Start under
  TerminateIfRunning against a running prior run does not fail with
  WorkflowExecutionAlreadyStarted: it terminates the prior run and returns the new run id.
\<close>

theorem C1_version_gate_counterexample:
  "startReachesCreate (exStartEnv (exPrior\<lparr>asLastWriteVersion := 5\<rparr>)) exCtx exStart exDomain None exPrepared \<and>
   firstCreate (exStartEnv (exPrior\<lparr>asLastWriteVersion := 5\<rparr>)) exPrepared =
     Some (PersistenceAlreadyStarted (exPrior\<lparr>asLastWriteVersion := 5\<rparr>)) \<and>
   asStartRequestID (exPrior\<lparr>asLastWriteVersion := 5\<rparr>) \<noteq> RequestID (StartRequest exStart) \<and>
   asState (exPrior\<lparr>asLastWriteVersion := 5\<rparr>) = WorkflowStateCompleted \<and>
   WorkflowIDReusePolicy (StartRequest exStart) = RejectDuplicate \<and>
   fst (startWorkflowHelper (exStartEnv (exPrior\<lparr>asLastWriteVersion := 5\<rparr>)) exCtx exStart exDomain None) =
     Inl (DomainNotActiveError ''example-domain'' 5) \<and>
   startReachesCreate (exStartEnv exRunningPrior) exCtx exTerminateStart exDomain None exPrepared \<and>
   firstCreate (exStartEnv exRunningPrior) exPrepared = Some (PersistenceAlreadyStarted exRunningPrior) \<and>
   asStartRequestID exRunningPrior \<noteq> RequestID (StartRequest exTerminateStart) \<and>
   asState exRunningPrior = WorkflowStateRunning \<and>
   fst (startWorkflowHelper (exStartEnv exRunningPrior) exCtx exTerminateStart exDomain None) = Inr ''run-2''"
  by (simp add: ex_defs ex_defs2 start_defs Let_def terminateAndStartWorkflow_def
      IsWorkflowExecutionRunning_def)

subsection \<open>C2: a start repeated with the same request id\<close>

text \<open>
  C2 (as amended). For every Start that reaches its creation attempt and whose
  CreateWorkflowExecution fails with AlreadyStarted carrying the request's own start request
  id, the call returns success with the prior run's run id; no run is created, no second
  creation is attempted and nothing is terminated: the calls made are the lock, the write
  of the new run's first event batch to the history store (made before the creation attempt,
  under the fresh run id that is then dropped), the one failed creation attempt and the
  release of the lock.
\<close>

theorem C2_idempotent_on_request_id:
  assumes reach: "startReachesCreate env ctx sr de sa p"
    and fc: "firstCreate env p = Some (PersistenceAlreadyStarted t)"
    and same: "asStartRequestID t = RequestID (StartRequest sr)"
  shows "startWorkflowHelper env ctx sr de sa =
           (Inr (asRunID t),
            [AcquireCurrentLock (startChildTimeout env ctx) None,
             PersistFirstWorkflowEvents (spRunID p) (msHistory (spCurMutableState p)) None,
             CreateWorkflowExecution (spCreateMode p) (spPrevRunID p) (spPrevLastWriteVersion p)
               (spCurMutableState p) (Some (PersistenceAlreadyStarted t)),
             ReleaseCurrentLock None])"
proof -
  have same': "asStartRequestID t = RequestID (StartRequest (startOverridden env sr))"
    using same by (simp add: startOverridden_fields)
  have sc: "startCreate env (startOverridden env sr) de b p =
      (Inr (asRunID t),
       [CreateWorkflowExecution (spCreateMode p) (spPrevRunID p) (spPrevLastWriteVersion p)
          (spCurMutableState p) (Some (PersistenceAlreadyStarted t))])" for b
    using fc same'
    by (simp add: startCreate_def firstCreate_def asAlreadyStarted_def Let_def)
  show ?thesis
    unfolding startWorkflowHelper_reaches [OF reach]
    by (simp add: sc resultError_def)
qed

theorem C2_idempotent_on_request_id_witness:
  "startReachesCreate (exStartEnv (exPrior\<lparr>asStartRequestID := ''request-2''\<rparr>)) exCtx exStart exDomain None
     exPrepared \<and>
   firstCreate (exStartEnv (exPrior\<lparr>asStartRequestID := ''request-2''\<rparr>)) exPrepared =
     Some (PersistenceAlreadyStarted (exPrior\<lparr>asStartRequestID := ''request-2''\<rparr>)) \<and>
   asStartRequestID (exPrior\<lparr>asStartRequestID := ''request-2''\<rparr>) = RequestID (StartRequest exStart) \<and>
   startWorkflowHelper (exStartEnv (exPrior\<lparr>asStartRequestID := ''request-2''\<rparr>)) exCtx exStart exDomain None =
     (Inr ''run-1'',
      [AcquireCurrentLock 500000000 None,
       PersistFirstWorkflowEvents ''run-2''
         [WorkflowExecutionStartedEvent ''run-2'' ''request-2'', DecisionTaskScheduledEvent] None,
       CreateWorkflowExecution CreateWorkflowModeBrandNew [] 0 exStarted
         (Some (PersistenceAlreadyStarted (exPrior\<lparr>asStartRequestID := ''request-2''\<rparr>))),
       ReleaseCurrentLock None])"
proof -
  let ?t = "exPrior\<lparr>asStartRequestID := ''request-2''\<rparr>"
  have h1: "startReachesCreate (exStartEnv ?t) exCtx exStart exDomain None exPrepared"
    using ex_reaches [of ?t RejectDuplicate] by (simp add: exStart_def exRequest_def)
  have h2: "firstCreate (exStartEnv ?t) exPrepared = Some (PersistenceAlreadyStarted ?t)"
    by (rule ex_first)
  have h3: "asStartRequestID ?t = RequestID (StartRequest exStart)"
    by (simp add: ex_defs)
  from C2_idempotent_on_request_id [OF h1 h2 h3] h1 h2 h3 show ?thesis
    by (simp add: ex_defs start_defs)
qed

text \<open>
  The claim as stated fails in its last part: the idempotent start returns the prior run id
  but has written history events, the first batch of the fresh run \<open>run-2\<close>.
\<close>

theorem C2_history_events_counterexample:
  "fst (startWorkflowHelper (exStartEnv (exPrior\<lparr>asStartRequestID := ''request-2''\<rparr>)) exCtx exStart
          exDomain None) = Inr ''run-1'' \<and>
   list_ex persistsEvents
     (snd (startWorkflowHelper (exStartEnv (exPrior\<lparr>asStartRequestID := ''request-2''\<rparr>)) exCtx exStart
             exDomain None))"
  by (simp add: ex_defs start_defs Let_def persistsEvents_def)

subsection \<open>C4: the child deadline of the current-run lock\<close>

text \<open>
  C4 (as amended). For every Start request that passes the domain-status and validation
  checks, the current-run lock is acquired under a child timeout that is the minimum of the
  caller's remaining time and 500 ms when the caller has a deadline with positive remaining
  time, and 500 ms when the caller has no deadline or its deadline has already passed; if
  that acquisition fails with context deadline exceeded the call fails with
  ConcurrentStartRequest, with nothing else done.
\<close>

theorem C4_child_deadline_of_lock:
  assumes reach: "startReachesLock env sr de"
  shows "let T = (case ctxDeadline ctx of
                    None \<Rightarrow> contextLockTimeout
                  | Some deadline \<Rightarrow>
                      if 0 < deadline - envNow env then min (deadline - envNow env) contextLockTimeout
                      else contextLockTimeout)
         in contextLockTimeout = 500 * 1000000 \<and>
            take 1 (snd (startWorkflowHelper env ctx sr de sa)) =
              [AcquireCurrentLock T (envGetOrCreateCurrent env T)] \<and>
            (envGetOrCreateCurrent env T = Some ContextDeadlineExceeded \<longrightarrow>
               startWorkflowHelper env ctx sr de sa =
                 (Inl ErrConcurrentStartRequest, [AcquireCurrentLock T (Some ContextDeadlineExceeded)]))"
proof -
  have T: "newChildContext (envNow env) ctx =
      (case ctxDeadline ctx of
         None \<Rightarrow> contextLockTimeout
       | Some deadline \<Rightarrow>
           if 0 < deadline - envNow env then min (deadline - envNow env) contextLockTimeout
           else contextLockTimeout)"
    by (auto simp: newChildContext_def time_Sub_def maxDuration_def minDuration_def
        contextLockTimeout_def Millisecond_def Let_def min_def split: option.splits)
  from reach have reg: "deStatus de = DomainStatusRegistered"
    and val: "validateStartWorkflowExecutionRequest (StartRequest sr) (envMaxIDLengthLimit env) = None"
    by (simp_all add: startReachesLock_def)
  have "take 1 (snd (startWorkflowHelper env ctx sr de sa)) =
          [AcquireCurrentLock (newChildContext (envNow env) ctx)
             (envGetOrCreateCurrent env (newChildContext (envNow env) ctx))]"
    unfolding startWorkflowHelper_def
    by (simp add: reg val Let_def split: option.splits sum.splits prod.splits)
  moreover have "envGetOrCreateCurrent env (newChildContext (envNow env) ctx) = Some ContextDeadlineExceeded \<longrightarrow>
      startWorkflowHelper env ctx sr de sa =
        (Inl ErrConcurrentStartRequest,
         [AcquireCurrentLock (newChildContext (envNow env) ctx) (Some ContextDeadlineExceeded)])"
    unfolding startWorkflowHelper_def
    by (simp add: reg val Let_def)
  ultimately show ?thesis
    unfolding T [symmetric] Let_def
    by (simp add: contextLockTimeout_def Millisecond_def)
qed

text \<open>
  The theorem at a caller with 200 ms left whose lock acquisition times out: the child
  timeout is the 200 ms and the call fails with ConcurrentStartRequest.
\<close>

theorem C4_child_deadline_of_lock_witness:
  "startReachesLock ((exStartEnv exPrior)\<lparr>envGetOrCreateCurrent := (\<lambda>timeout. Some ContextDeadlineExceeded)\<rparr>)
     exStart exDomain \<and>
   startWorkflowHelper ((exStartEnv exPrior)\<lparr>envGetOrCreateCurrent := (\<lambda>timeout. Some ContextDeadlineExceeded)\<rparr>)
     \<lparr> ctxDeadline = Some 200001000, ctxHasDone = True, ctxErr = None \<rparr> exStart exDomain None =
     (Inl ErrConcurrentStartRequest, [AcquireCurrentLock 200000000 (Some ContextDeadlineExceeded)])"
proof -
  let ?env = "(exStartEnv exPrior)\<lparr>envGetOrCreateCurrent := (\<lambda>timeout. Some ContextDeadlineExceeded)\<rparr>"
  have h: "startReachesLock ?env exStart exDomain"
    by (simp add: ex_defs start_defs)
  from C4_child_deadline_of_lock
    [OF h, of "\<lparr> ctxDeadline = Some 200001000, ctxHasDone = True, ctxErr = None \<rparr>" None] h
  show ?thesis
    by (simp add: Let_def ex_defs contextLockTimeout_def Millisecond_def)
qed

text \<open>
  The claim as stated fails for a caller whose deadline has passed: its remaining time is
  \<open>- 600\<close> nanoseconds, the minimum of that and 500 ms is negative, and the lock is taken
  under the full 500 ms.
\<close>

theorem C4_expired_caller_counterexample:
  "startReachesLock (exStartEnv exPrior) exStart exDomain \<and>
   ctxDeadline exExpiredCtx = Some 400 \<and> envNow (exStartEnv exPrior) = 1000 \<and>
   min (400 - 1000) contextLockTimeout = - 600 \<and>
   take 1 (snd (startWorkflowHelper (exStartEnv exPrior) exExpiredCtx exStart exDomain None)) =
     [AcquireCurrentLock 500000000 None]"
  by (simp add: ex_defs ex_defs2 start_defs Let_def)

subsection \<open>C3: terminate and start\<close>

lemma TerminateWorkflow_closes:
  "msState (TerminateWorkflow ms first reason details identity) = WorkflowStateCompleted"
  "msCloseStatus (TerminateWorkflow ms first reason details identity) = WorkflowCloseStatusTerminated"
  "msHistory (TerminateWorkflow ms first reason details identity) \<noteq> []"
  "last (msHistory (TerminateWorkflow ms first reason details identity)) =
     WorkflowExecutionTerminatedEvent reason details identity"
  "\<not> IsWorkflowExecutionRunning (TerminateWorkflow ms first reason details identity)"
  by (simp_all add: TerminateWorkflow_def appendEvent_def IsWorkflowExecutionRunning_def state_codes)



text \<open>
  After the stale-state sentinel or a conflict reply, with an attempt left, the loop goes on
  to its next attempt: after the sentinel it clears the context and reloads, after a
  conflict it goes on with the mutable state it has terminated in memory.
\<close>

lemma terminateAndStartLoop_stale_retries:
  assumes "Suc attempt < envConditionalRetryCount env"
    and "IsWorkflowExecutionRunning ms"
    and "envTerminateWorkflowErr env attempt = Some ErrStaleState"
    and "envReloadMutableStateErr env attempt = None"
  shows "terminateAndStartLoop env runID domainID sr sig attempt ms =
           (let (r, effs) = terminateAndStartLoop env runID domainID sr sig (Suc attempt) ms
            in (r, [ClearContext, ReloadMutableState] @ effs))"
  using assms by (subst terminateAndStartLoop.simps) simp

lemma terminateAndStartLoop_conflict_retries:
  assumes "attempt < envConditionalRetryCount env"
    and "IsWorkflowExecutionRunning ms"
    and "envTerminateWorkflowErr env attempt = None"
    and "envCreateMutableState env runID = Inr newMutableState"
    and "addStartEventsAndTasks env newMutableState runID sr None = Inr newMutableState'"
    and "envUpdateWithNewAsActive env attempt = Some ErrConflict"
  shows "terminateAndStartLoop env runID domainID (Some sr) None attempt ms =
           (let terminated = TerminateWorkflow ms (msNextEventID ms) TerminateIfRunningReason
                               (getTerminateIfRunningDetails runID) IdentityHistoryService;
                (r, effs) = terminateAndStartLoop env runID domainID (Some sr) None (Suc attempt) terminated
            in (r, [UpdateWorkflowExecutionWithNewAsActive terminated newMutableState' (Some ErrConflict)] @ effs))"
  using assms by (subst terminateAndStartLoop.simps) (simp add: Let_def)







text \<open>What holds of the terminate-and-start path besides.\<close>

text \<open>
  Every transaction that the loop hands to the store closes the prior run as terminated,
  with the reason of the policy and the details that name the new run id.
\<close>

lemma terminateAndStartLoop_commits:
  "terminateAndStartLoop env runID domainID sr sig a ms = (r, effs) \<Longrightarrow>
   UpdateWorkflowExecutionWithNewAsActive prior new res \<in> set effs \<Longrightarrow>
   msState prior = WorkflowStateCompleted \<and> msCloseStatus prior = WorkflowCloseStatusTerminated \<and>
   msHistory prior \<noteq> [] \<and>
   last (msHistory prior) =
     WorkflowExecutionTerminatedEvent ''TerminateIfRunning Policy''
       (bytes_of_string (''New runID: '' @ runID)) IdentityHistoryService"
proof (induction env runID domainID sr sig a ms arbitrary: r effs
    rule: terminateAndStartLoop.induct)
  case (1 env runID domainID startRequest signalRequest attempt ms)
  let ?goal = "msState prior = WorkflowStateCompleted \<and> msCloseStatus prior = WorkflowCloseStatusTerminated \<and>
     msHistory prior \<noteq> [] \<and>
     last (msHistory prior) =
       WorkflowExecutionTerminatedEvent ''TerminateIfRunning Policy''
         (bytes_of_string (''New runID: '' @ runID)) IdentityHistoryService"
  let ?terminated = "TerminateWorkflow ms (msNextEventID ms) TerminateIfRunningReason
      (getTerminateIfRunningDetails runID) IdentityHistoryService"
  have closes: "p = ?terminated \<Longrightarrow>
      msState p = WorkflowStateCompleted \<and> msCloseStatus p = WorkflowCloseStatusTerminated \<and>
      msHistory p \<noteq> [] \<and>
      last (msHistory p) =
        WorkflowExecutionTerminatedEvent ''TerminateIfRunning Policy''
          (bytes_of_string (''New runID: '' @ runID)) IdentityHistoryService" for p
    by (simp add: TerminateWorkflow_closes TerminateIfRunningReason_def getTerminateIfRunningDetails_def)
  note eq = "1.prems"(1) and mem = "1.prems"(2)
  show ?case
  proof (cases "attempt < envConditionalRetryCount env \<and> IsWorkflowExecutionRunning ms")
    case False
    with eq mem show ?thesis by (auto split: if_splits)
  next
    case True
    then have lt: "\<not> \<not> attempt < envConditionalRetryCount env" and run: "\<not> \<not> IsWorkflowExecutionRunning ms"
      by simp_all
    show ?thesis
    proof (cases "envTerminateWorkflowErr env attempt")
      case (Some err)
      show ?thesis
      proof (cases "err = ErrStaleState")
        case stale: True
        obtain r' effs' where rec:
          "terminateAndStartLoop env runID domainID startRequest signalRequest (Suc attempt) ms = (r', effs')"
          by (cases "terminateAndStartLoop env runID domainID startRequest signalRequest (Suc attempt) ms") auto
        show ?thesis
        proof (cases "Suc attempt \<noteq> envConditionalRetryCount env")
          case more: True
          show ?thesis
          proof (cases "envReloadMutableStateErr env attempt")
            case None
            from eq True Some stale more None rec
            have "effs = [ClearContext, ReloadMutableState] @ effs'" by simp
            with mem have "UpdateWorkflowExecutionWithNewAsActive prior new res \<in> set effs'" by simp
            from "1.IH"(2) [OF lt run Some stale more None rec this] show ?thesis .
          next
            case (Some err')
            with eq True \<open>envTerminateWorkflowErr env attempt = Some err\<close> stale more mem
            show ?thesis by auto
          qed
        next
          case lastAttempt: False
          from eq True Some stale lastAttempt rec
          have "effs = [ClearContext] @ effs'" by simp
          with mem have "UpdateWorkflowExecutionWithNewAsActive prior new res \<in> set effs'" by simp
          from "1.IH"(3) [OF lt run Some stale lastAttempt rec this] show ?thesis .
        qed
      next
        case False
        with eq True Some mem show ?thesis by auto
      qed
    next
      case None
      show ?thesis
      proof (cases "envCreateMutableState env runID")
        case (Inl err)
        with eq True None mem show ?thesis by (auto simp: Let_def)
      next
        case cm: (Inr newMS)
        show ?thesis
        proof (cases "case signalRequest of
                        None \<Rightarrow> (case startRequest of None \<Rightarrow> Inl (OtherError ''nil start request'')
                                  | Some x \<Rightarrow> Inr x)
                      | Some x \<Rightarrow> getStartRequest env domainID x")
          case (Inl err)
          with eq True None cm mem show ?thesis by (auto simp: Let_def)
        next
          case sr: (Inr sr')
          show ?thesis
          proof (cases "addStartEventsAndTasks env newMS runID sr' signalRequest")
            case (Inl err)
            with eq True None cm sr mem show ?thesis by (auto simp: Let_def)
          next
            case add: (Inr newMS')
            show ?thesis
            proof (cases "envUpdateWithNewAsActive env attempt")
              case upd: None
              with eq True None cm sr add
              have "effs = [UpdateWorkflowExecutionWithNewAsActive ?terminated newMS' None]"
                by (simp add: Let_def)
              with mem have "prior = ?terminated" by simp
              then show ?thesis by (rule closes)
            next
              case upd: (Some updateErr)
              show ?thesis
              proof (cases "updateErr = ErrConflict")
                case conflict: True
                obtain r' effs' where rec:
                  "terminateAndStartLoop env runID domainID (Some sr') signalRequest (Suc attempt) ?terminated
                     = (r', effs')"
                  by (cases "terminateAndStartLoop env runID domainID (Some sr') signalRequest (Suc attempt)
                        ?terminated") auto
                from eq True None cm sr add upd conflict rec
                have "effs = [UpdateWorkflowExecutionWithNewAsActive ?terminated newMS' (Some updateErr)] @ effs'"
                  by (simp add: Let_def)
                with mem have "prior = ?terminated \<or>
                    UpdateWorkflowExecutionWithNewAsActive prior new res \<in> set effs'"
                  by auto
                then show ?thesis
                proof
                  assume "prior = ?terminated" then show ?thesis by (rule closes)
                next
                  assume m': "UpdateWorkflowExecutionWithNewAsActive prior new res \<in> set effs'"
                  from "1.IH"(1) [OF lt run None refl cm sr add upd conflict rec m'] show ?thesis .
                qed
              next
                case False
                with eq True None cm sr add upd
                have "effs = [UpdateWorkflowExecutionWithNewAsActive ?terminated newMS' (Some updateErr)]"
                  by (simp add: Let_def)
                with mem have "prior = ?terminated" by simp
                then show ?thesis by (rule closes)
              qed
            qed
          qed
        qed
      qed
    qed
  qed
qed

text \<open>
  A conflict reply does not lead to a second transaction: \<^verbatim>\<open>runningMutableState\<close> has
  been terminated in memory and is not reloaded, so the next attempt finds the run not
  running and answers \<^verbatim>\<open>ErrAlreadyCompleted\<close>.
\<close>

lemma terminateAndStart_after_conflict:
  "fst (terminateAndStartWorkflow
          ((exStartEnv exRunningPrior)\<lparr>envUpdateWithNewAsActive := (\<lambda>attempt. Some ErrConflict)\<rparr>)
          exRunning ''run-2'' ''domain-id'' (Some exTerminateStart) None) = Inl ErrAlreadyCompleted"
  by (simp add: ex_defs ex_defs2 start_defs Let_def terminateAndStartWorkflow_def
      IsWorkflowExecutionRunning_def TerminateWorkflow_def)

subsection \<open>C10: the history start request\<close>

text \<open>
  C10 (the code departs from the claim). With an expiration interval of \<open>2147483647\<close>
  seconds and a start delay of one second the \<^verbatim>\<open>int32\<close> sum of the two wraps to
  \<open>- 2147483648\<close>: the expiration timestamp is 2147483648 seconds before \<open>now\<close> instead
  of 2147483648 seconds after it.
\<close>

theorem C10_expiration_sum_wraps:
  "ValidateRetryPolicy (RetryPolicy exLongExpiry) = None \<and>
   CreateHistoryStartWorkflowRequest (\<lambda>cron start close. 0) ''domain-id'' exLongExpiry
       (1700000000 * Second) =
     Inr \<lparr> DomainUUID = ''domain-id'', StartRequest = exLongExpiry, ParentExecutionInfo = None,
           FirstDecisionTaskBackoffSeconds = Some 1,
           ExpirationTimestamp = Some (1700000000 * Second - 2147483648 * Second) \<rparr> \<and>
   1700000000 * Second - 2147483648 * Second \<noteq>
     time_UnixNano (time_Round (1700000000 * Second + (2147483647 + 1) * Second) Millisecond)"
  by (simp add: ex_defs ex_defs2 CreateHistoryStartWorkflowRequest_def ValidateRetryPolicy_def
      time_UnixNano_def time_Round_def wrap_int64_def Second_def Millisecond_def Let_def)

text \<open>
  \<^verbatim>\<open>CreateHistoryStartWorkflowRequest\<close> fails exactly when both a start delay and a cron
  backoff are positive, and then with the error of conflicting inputs; on success the first
  decision backoff is the delay when positive and the cron backoff otherwise; and, as long
  as the \<^verbatim>\<open>int32\<close> sum of expiration interval and backoff does not overflow and the
  timestamp fits \<^verbatim>\<open>int64\<close>, the expiration timestamp is \<open>now\<close> plus interval plus backoff,
  rounded to milliseconds.
\<close>

lemma CreateHistoryStartWorkflowRequest_fails_iff:
  "(\<exists>err. CreateHistoryStartWorkflowRequest cronBackoff domainID r now = Inl err) \<longleftrightarrow>
     sint (DelayStartSeconds r) > 0 \<and> sint (cronBackoff (CronSchedule r) now now) > 0"
  "CreateHistoryStartWorkflowRequest cronBackoff domainID r now = Inl err \<Longrightarrow>
     err = BadRequestError ''Conflicting inputs: both DelayStartSeconds and Cron schedule is set''"
  by (auto simp: CreateHistoryStartWorkflowRequest_def ErrDelayStartSeconds_def Let_def split: if_splits)

lemma CreateHistoryStartWorkflowRequest_backoff:
  assumes "CreateHistoryStartWorkflowRequest cronBackoff domainID r now = Inr h"
  shows "FirstDecisionTaskBackoffSeconds h =
           Some (if sint (DelayStartSeconds r) > 0 then DelayStartSeconds r
                 else cronBackoff (CronSchedule r) now now)"
  using assms
  by (auto simp: CreateHistoryStartWorkflowRequest_def Let_def split: if_splits)

lemma CreateHistoryStartWorkflowRequest_expiration:
  assumes ok: "CreateHistoryStartWorkflowRequest cronBackoff domainID r now = Inr h"
    and pol: "RetryPolicy r = Some policy" and pos: "sint (ExpirationIntervalInSeconds policy) > 0"
    and bo: "FirstDecisionTaskBackoffSeconds h = Some backoff"
    and fits32: "sint (ExpirationIntervalInSeconds policy) + sint backoff < 2 ^ 31"
    and low32: "- (2 ^ 31) \<le> sint (ExpirationIntervalInSeconds policy) + sint backoff"
    and fits64: "- (2 ^ 63) \<le> time_Round (now + (sint (ExpirationIntervalInSeconds policy) + sint backoff) * Second) Millisecond"
      "time_Round (now + (sint (ExpirationIntervalInSeconds policy) + sint backoff) * Second) Millisecond < 2 ^ 63"
  shows "ExpirationTimestamp h =
           Some (time_Round (now + (sint (ExpirationIntervalInSeconds policy) + sint backoff) * Second)
                   Millisecond)"
proof -
  have sum: "sint (ExpirationIntervalInSeconds policy + backoff) =
      sint (ExpirationIntervalInSeconds policy) + sint backoff"
    using fits32 low32 by (simp add: sint_word_ariths word_size signed_take_bit_int_eq_self)
  have wrap: "wrap_int64 x = x" if "- (2 ^ 63) \<le> x" and "x < 2 ^ 63" for x :: int
  proof -
    have "(x + 2 ^ 63) mod 2 ^ 64 = x + 2 ^ 63"
      using that by (intro mod_pos_pos_trivial) simp_all
    then show ?thesis by (simp add: wrap_int64_def)
  qed
  from ok pol pos bo show ?thesis
    by (auto simp: CreateHistoryStartWorkflowRequest_def Let_def sum time_UnixNano_def wrap [OF fits64]
        split: if_splits)
qed

section \<open>Theorems: activity task handlers\<close>

lemmas activity_ex_defs = exActivity_def exWithActivity_def exToken_def exActivityEnv_def
  exCompleteRequest_def exHeartbeatRequest_def

lemmas activity_defs = activityTaskChecks_def tokenScheduleID_def getScheduleID_def
  GetActivityByActivityID_def GetActivityInfo_def IsWorkflowExecutionRunning_def EmptyEventID_def

lemma UpdateWithAction_error:
  assumes "0 < aeConditionalRetryCount env"
    and "aeLoadWorkflowExecution env 0 = Inr ms"
    and "action ms = Inl err"
    and "err \<noteq> ErrStaleState"
  shows "UpdateWithAction env createDecision action = (Inl err, [LoadWorkflowExecution 0])"
  using assms by (simp add: UpdateWithAction_def)

lemma UpdateWithAction_stale:
  assumes "0 < aeConditionalRetryCount env"
    and "aeLoadWorkflowExecution env 0 = Inr ms"
    and "action ms = Inl ErrStaleState"
  shows "UpdateWithAction env createDecision action =
           (let (r, effs) = UpdateWithActionLoop env createDecision action 1
            in (r, [LoadWorkflowExecution 0, ClearCache] @ effs))"
  using assms by (simp add: UpdateWithAction_def)

lemma RespondActivityTaskCompleted_driver:
  assumes "activityCallLoads env domainUUID (rcTaskToken request) token ms"
  shows "RespondActivityTaskCompleted env domainUUID request =
           (let (r, effs) = UpdateWithAction env True (respondActivityTaskCompletedAction env token request)
            in (resultError r, effs))"
  using assms
  by (simp add: RespondActivityTaskCompleted_def activityCallLoads_def split: sum.splits)

text \<open>
  A call whose action fails on the first load with an error other than the stale-state
  sentinel fails with that error, and nothing is handed to the store.
\<close>

lemma RespondActivityTaskCompleted_fails:
  assumes loads: "activityCallLoads env domainUUID (rcTaskToken request) token ms"
    and act: "respondActivityTaskCompletedAction env token request ms = Inl err"
    and ns: "err \<noteq> ErrStaleState"
  shows "RespondActivityTaskCompleted env domainUUID request = (Some err, [LoadWorkflowExecution 0])"
    and "committedStates (snd (RespondActivityTaskCompleted env domainUUID request)) = []"
proof -
  from loads have n: "0 < aeConditionalRetryCount env" and ld: "aeLoadWorkflowExecution env 0 = Inr ms"
    by (simp_all add: activityCallLoads_def)
  show c: "RespondActivityTaskCompleted env domainUUID request = (Some err, [LoadWorkflowExecution 0])"
    using UpdateWithAction_error [where action = "respondActivityTaskCompletedAction env token request"
        and err = err and createDecision = True, OF n ld act ns]
    unfolding RespondActivityTaskCompleted_driver [OF loads] by (simp add: resultError_def)
  show "committedStates (snd (RespondActivityTaskCompleted env domainUUID request)) = []"
    by (simp add: c committedStates_def)
qed

subsection \<open>C5: the checks of RespondActivityTaskCompleted\<close>

text \<open>
  C5 (as amended). For every RespondActivityTaskCompleted that reaches the mutation driver,
  with \<open>ms\<close> the mutable state of the driver's first load. If the workflow is not running
  the call fails with AlreadyCompleted. Otherwise the schedule id is the task token's or,
  for a token that carries none (completion by activity id), that of the pending activity
  with the token's activity id; if the token carries no activity id either, or no pending
  activity has that id, the call fails with BadRequest. With the schedule id: if the
  activity info is missing and the schedule id is at or above the next-event id the action
  returns the StaleState sentinel, and the driver clears the cache and goes on with a
  reload; if the activity is missing below the next-event id, or not yet started, or the
  token carries a schedule id and its schedule attempt differs from the activity's current
  attempt, the call fails with ActivityTaskNotFound. In each failing case nothing is
  committed: the mutable state is unchanged. A token that carries no schedule id is not
  checked for its attempt: the action completes a started activity whatever the token's
  attempt. Each case is stated of the action, which is the handler's code, and of the call
  through the driver.
\<close>

theorem C5_complete_checks:
  assumes loads: "activityCallLoads env domainUUID (rcTaskToken request) token ms"
  shows "(\<not> IsWorkflowExecutionRunning ms \<longrightarrow>
            respondActivityTaskCompletedAction env token request ms = Inl ErrAlreadyCompleted \<and>
            RespondActivityTaskCompleted env domainUUID request =
              (Some ErrAlreadyCompleted, [LoadWorkflowExecution 0])) \<and>
         (ttScheduleID token \<noteq> EmptyEventID \<longrightarrow> tokenScheduleID token ms = Inr (ttScheduleID token)) \<and>
         (ttScheduleID token = EmptyEventID \<and> ttActivityID token \<noteq> [] \<and>
          GetActivityByActivityID ms (ttActivityID token) = Some info \<longrightarrow>
            tokenScheduleID token ms = Inr (aiScheduleID info)) \<and>
         (IsWorkflowExecutionRunning ms \<and> ttScheduleID token = EmptyEventID \<and> ttActivityID token = [] \<longrightarrow>
            respondActivityTaskCompletedAction env token request ms =
              Inl (BadRequestError ''Neither ActivityID nor ScheduleID is provided'') \<and>
            RespondActivityTaskCompleted env domainUUID request =
              (Some (BadRequestError ''Neither ActivityID nor ScheduleID is provided''),
               [LoadWorkflowExecution 0]) \<and>
            committedStates (snd (RespondActivityTaskCompleted env domainUUID request)) = []) \<and>
         (IsWorkflowExecutionRunning ms \<and> ttScheduleID token = EmptyEventID \<and> ttActivityID token \<noteq> [] \<and>
          GetActivityByActivityID ms (ttActivityID token) = None \<longrightarrow>
            respondActivityTaskCompletedAction env token request ms =
              Inl (BadRequestError ''Cannot locate Activity ScheduleID'') \<and>
            RespondActivityTaskCompleted env domainUUID request =
              (Some (BadRequestError ''Cannot locate Activity ScheduleID''), [LoadWorkflowExecution 0]) \<and>
            committedStates (snd (RespondActivityTaskCompleted env domainUUID request)) = []) \<and>
         (IsWorkflowExecutionRunning ms \<and> tokenScheduleID token ms = Inr scheduleID \<and>
          GetActivityInfo ms scheduleID = None \<and> scheduleID \<ge> msNextEventID ms \<longrightarrow>
            respondActivityTaskCompletedAction env token request ms = Inl ErrStaleState \<and>
            RespondActivityTaskCompleted env domainUUID request =
              (let (r, effs) = UpdateWithActionLoop env True
                                 (respondActivityTaskCompletedAction env token request) 1
               in (resultError r, [LoadWorkflowExecution 0, ClearCache] @ effs))) \<and>
         (IsWorkflowExecutionRunning ms \<and> tokenScheduleID token ms = Inr scheduleID \<and>
          (GetActivityInfo ms scheduleID = None \<and> scheduleID < msNextEventID ms \<or>
           (\<exists>ai. GetActivityInfo ms scheduleID = Some ai \<and>
                 (aiStartedID ai = EmptyEventID \<or>
                  ttScheduleID token \<noteq> EmptyEventID \<and> ttScheduleAttempt token \<noteq> sint (aiAttempt ai)))) \<longrightarrow>
            respondActivityTaskCompletedAction env token request ms = Inl ErrActivityTaskNotFound \<and>
            RespondActivityTaskCompleted env domainUUID request =
              (Some ErrActivityTaskNotFound, [LoadWorkflowExecution 0]) \<and>
            committedStates (snd (RespondActivityTaskCompleted env domainUUID request)) = []) \<and>
         (IsWorkflowExecutionRunning ms \<and> ttScheduleID token = EmptyEventID \<and>
          tokenScheduleID token ms = Inr scheduleID \<and> GetActivityInfo ms scheduleID = Some started \<and>
          aiStartedID started \<noteq> EmptyEventID \<and> \<not> aeAddEventFails env \<longrightarrow>
            respondActivityTaskCompletedAction env token request ms =
              Inr (AddActivityTaskCompletedEvent ms scheduleID (aiStartedID started) (rcResult request), ()))"
proof -
  from loads have n: "0 < aeConditionalRetryCount env" and ld: "aeLoadWorkflowExecution env 0 = Inr ms"
    by (simp_all add: activityCallLoads_def)
  note drv = RespondActivityTaskCompleted_driver [OF loads]
  note fails = RespondActivityTaskCompleted_fails [OF loads]
  let ?action = "respondActivityTaskCompletedAction env token request"
  have t1: "ttScheduleID token \<noteq> EmptyEventID \<Longrightarrow> tokenScheduleID token ms = Inr (ttScheduleID token)"
    by (simp add: tokenScheduleID_def)
  have t2: "ttScheduleID token = EmptyEventID \<Longrightarrow> ttActivityID token \<noteq> [] \<Longrightarrow>
      GetActivityByActivityID ms (ttActivityID token) = Some info \<Longrightarrow>
      tokenScheduleID token ms = Inr (aiScheduleID info)"
    by (simp add: tokenScheduleID_def getScheduleID_def)
  have a1: "\<not> IsWorkflowExecutionRunning ms \<Longrightarrow> ?action ms = Inl ErrAlreadyCompleted"
    by (simp add: respondActivityTaskCompletedAction_def activityTaskChecks_def)
  have b1: "IsWorkflowExecutionRunning ms \<Longrightarrow> ttScheduleID token = EmptyEventID \<Longrightarrow> ttActivityID token = [] \<Longrightarrow>
      ?action ms = Inl (BadRequestError ''Neither ActivityID nor ScheduleID is provided'')"
    by (simp add: respondActivityTaskCompletedAction_def activityTaskChecks_def tokenScheduleID_def
        getScheduleID_def)
  have b2: "IsWorkflowExecutionRunning ms \<Longrightarrow> ttScheduleID token = EmptyEventID \<Longrightarrow> ttActivityID token \<noteq> [] \<Longrightarrow>
      GetActivityByActivityID ms (ttActivityID token) = None \<Longrightarrow>
      ?action ms = Inl (BadRequestError ''Cannot locate Activity ScheduleID'')"
    by (simp add: respondActivityTaskCompletedAction_def activityTaskChecks_def tokenScheduleID_def
        getScheduleID_def)
  have a2: "IsWorkflowExecutionRunning ms \<Longrightarrow> tokenScheduleID token ms = Inr scheduleID \<Longrightarrow>
      GetActivityInfo ms scheduleID = None \<Longrightarrow> scheduleID \<ge> msNextEventID ms \<Longrightarrow>
      ?action ms = Inl ErrStaleState"
    by (simp add: respondActivityTaskCompletedAction_def activityTaskChecks_def)
  have a3: "IsWorkflowExecutionRunning ms \<Longrightarrow> tokenScheduleID token ms = Inr scheduleID \<Longrightarrow>
      (GetActivityInfo ms scheduleID = None \<and> scheduleID < msNextEventID ms \<or>
       (\<exists>ai. GetActivityInfo ms scheduleID = Some ai \<and>
             (aiStartedID ai = EmptyEventID \<or>
              ttScheduleID token \<noteq> EmptyEventID \<and> ttScheduleAttempt token \<noteq> sint (aiAttempt ai)))) \<Longrightarrow>
      ?action ms = Inl ErrActivityTaskNotFound"
    by (auto simp: respondActivityTaskCompletedAction_def activityTaskChecks_def)
  have a4: "IsWorkflowExecutionRunning ms \<Longrightarrow> ttScheduleID token = EmptyEventID \<Longrightarrow>
      tokenScheduleID token ms = Inr scheduleID \<Longrightarrow> GetActivityInfo ms scheduleID = Some started \<Longrightarrow>
      aiStartedID started \<noteq> EmptyEventID \<Longrightarrow> \<not> aeAddEventFails env \<Longrightarrow>
      ?action ms = Inr (AddActivityTaskCompletedEvent ms scheduleID (aiStartedID started) (rcResult request), ())"
    by (simp add: respondActivityTaskCompletedAction_def activityTaskChecks_def)
  have c2: "IsWorkflowExecutionRunning ms \<Longrightarrow> tokenScheduleID token ms = Inr scheduleID \<Longrightarrow>
      GetActivityInfo ms scheduleID = None \<Longrightarrow> scheduleID \<ge> msNextEventID ms \<Longrightarrow>
      RespondActivityTaskCompleted env domainUUID request =
        (let (r, effs) = UpdateWithActionLoop env True ?action 1
         in (resultError r, [LoadWorkflowExecution 0, ClearCache] @ effs))"
    using UpdateWithAction_stale [where action = ?action and createDecision = True, OF n ld] a2
    unfolding drv by (simp add: Let_def split: prod.splits)
  show ?thesis
  proof (intro conjI impI)
    assume h: "\<not> IsWorkflowExecutionRunning ms"
    show "?action ms = Inl ErrAlreadyCompleted" by (rule a1 [OF h])
    show "RespondActivityTaskCompleted env domainUUID request =
            (Some ErrAlreadyCompleted, [LoadWorkflowExecution 0])"
      by (rule fails(1) [OF a1 [OF h]]) simp
  next
    assume "ttScheduleID token \<noteq> EmptyEventID"
    then show "tokenScheduleID token ms = Inr (ttScheduleID token)" by (rule t1)
  next
    assume "ttScheduleID token = EmptyEventID \<and> ttActivityID token \<noteq> [] \<and>
            GetActivityByActivityID ms (ttActivityID token) = Some info"
    then show "tokenScheduleID token ms = Inr (aiScheduleID info)" using t2 by blast
  next
    assume h: "IsWorkflowExecutionRunning ms \<and> ttScheduleID token = EmptyEventID \<and> ttActivityID token = []"
    then have a: "?action ms = Inl (BadRequestError ''Neither ActivityID nor ScheduleID is provided'')"
      using b1 by blast
    show "?action ms = Inl (BadRequestError ''Neither ActivityID nor ScheduleID is provided'')" by (rule a)
    show "RespondActivityTaskCompleted env domainUUID request =
            (Some (BadRequestError ''Neither ActivityID nor ScheduleID is provided''),
             [LoadWorkflowExecution 0])"
      by (rule fails(1) [OF a]) simp
    show "committedStates (snd (RespondActivityTaskCompleted env domainUUID request)) = []"
      by (rule fails(2) [OF a]) simp
  next
    assume h: "IsWorkflowExecutionRunning ms \<and> ttScheduleID token = EmptyEventID \<and> ttActivityID token \<noteq> [] \<and>
               GetActivityByActivityID ms (ttActivityID token) = None"
    then have a: "?action ms = Inl (BadRequestError ''Cannot locate Activity ScheduleID'')"
      using b2 by blast
    show "?action ms = Inl (BadRequestError ''Cannot locate Activity ScheduleID'')" by (rule a)
    show "RespondActivityTaskCompleted env domainUUID request =
            (Some (BadRequestError ''Cannot locate Activity ScheduleID''), [LoadWorkflowExecution 0])"
      by (rule fails(1) [OF a]) simp
    show "committedStates (snd (RespondActivityTaskCompleted env domainUUID request)) = []"
      by (rule fails(2) [OF a]) simp
  next
    assume h: "IsWorkflowExecutionRunning ms \<and> tokenScheduleID token ms = Inr scheduleID \<and>
               GetActivityInfo ms scheduleID = None \<and> scheduleID \<ge> msNextEventID ms"
    show "?action ms = Inl ErrStaleState" using h a2 by blast
    show "RespondActivityTaskCompleted env domainUUID request =
            (let (r, effs) = UpdateWithActionLoop env True ?action 1
             in (resultError r, [LoadWorkflowExecution 0, ClearCache] @ effs))"
      using h c2 by blast
  next
    assume h: "IsWorkflowExecutionRunning ms \<and> tokenScheduleID token ms = Inr scheduleID \<and>
          (GetActivityInfo ms scheduleID = None \<and> scheduleID < msNextEventID ms \<or>
           (\<exists>ai. GetActivityInfo ms scheduleID = Some ai \<and>
                 (aiStartedID ai = EmptyEventID \<or>
                  ttScheduleID token \<noteq> EmptyEventID \<and> ttScheduleAttempt token \<noteq> sint (aiAttempt ai))))"
    then have a: "?action ms = Inl ErrActivityTaskNotFound"
      using a3 by blast
    show "?action ms = Inl ErrActivityTaskNotFound" by (rule a)
    show "RespondActivityTaskCompleted env domainUUID request =
            (Some ErrActivityTaskNotFound, [LoadWorkflowExecution 0])"
      by (rule fails(1) [OF a]) simp
    show "committedStates (snd (RespondActivityTaskCompleted env domainUUID request)) = []"
      by (rule fails(2) [OF a]) simp
  next
    assume h: "IsWorkflowExecutionRunning ms \<and> ttScheduleID token = EmptyEventID \<and>
          tokenScheduleID token ms = Inr scheduleID \<and> GetActivityInfo ms scheduleID = Some started \<and>
          aiStartedID started \<noteq> EmptyEventID \<and> \<not> aeAddEventFails env"
    then show "?action ms =
        Inr (AddActivityTaskCompletedEvent ms scheduleID (aiStartedID started) (rcResult request), ())"
      using a4 by blast
  qed
qed

text \<open>
  The theorem at the example run: a token for schedule id 5 with attempt 1, while the
  activity is on attempt 2, is answered with ActivityTaskNotFound and nothing is committed.
\<close>

theorem C5_complete_checks_witness:
  "activityCallLoads (exActivityEnv (exToken\<lparr>ttScheduleAttempt := 1\<rparr>)) ''domain-id''
     (rcTaskToken exCompleteRequest) (exToken\<lparr>ttScheduleAttempt := 1\<rparr>) exWithActivity \<and>
   IsWorkflowExecutionRunning exWithActivity \<and>
   tokenScheduleID (exToken\<lparr>ttScheduleAttempt := 1\<rparr>) exWithActivity = Inr 5 \<and>
   GetActivityInfo exWithActivity 5 = Some exActivity \<and>
   ttScheduleAttempt (exToken\<lparr>ttScheduleAttempt := 1\<rparr>) \<noteq> sint (aiAttempt exActivity) \<and>
   RespondActivityTaskCompleted (exActivityEnv (exToken\<lparr>ttScheduleAttempt := 1\<rparr>)) ''domain-id''
     exCompleteRequest = (Some ErrActivityTaskNotFound, [LoadWorkflowExecution 0]) \<and>
   committedStates (snd (RespondActivityTaskCompleted (exActivityEnv (exToken\<lparr>ttScheduleAttempt := 1\<rparr>))
     ''domain-id'' exCompleteRequest)) = []"
proof -
  let ?token = "exToken\<lparr>ttScheduleAttempt := 1\<rparr>"
  have h: "activityCallLoads (exActivityEnv ?token) ''domain-id'' (rcTaskToken exCompleteRequest)
             ?token exWithActivity"
    by (simp add: activityCallLoads_def activity_ex_defs)
  have r: "IsWorkflowExecutionRunning exWithActivity"
    by (simp add: activity_ex_defs ex_defs activity_defs state_codes)
  have s: "tokenScheduleID ?token exWithActivity = Inr 5"
    by (simp add: activity_ex_defs activity_defs)
  have g: "GetActivityInfo exWithActivity 5 = Some exActivity"
    by (simp add: activity_ex_defs ex_defs activity_defs)
  have m: "ttScheduleID ?token \<noteq> EmptyEventID" "ttScheduleAttempt ?token \<noteq> sint (aiAttempt exActivity)"
    by (simp_all add: activity_ex_defs activity_defs)
  have pre: "IsWorkflowExecutionRunning exWithActivity \<and> tokenScheduleID ?token exWithActivity = Inr 5 \<and>
          (GetActivityInfo exWithActivity 5 = None \<and> 5 < msNextEventID exWithActivity \<or>
           (\<exists>ai. GetActivityInfo exWithActivity 5 = Some ai \<and>
                 (aiStartedID ai = EmptyEventID \<or>
                  ttScheduleID ?token \<noteq> EmptyEventID \<and> ttScheduleAttempt ?token \<noteq> sint (aiAttempt ai))))"
    using r s g m by blast
  from C5_complete_checks [OF h, where scheduleID = 5] pre
  have c1: "RespondActivityTaskCompleted (exActivityEnv ?token) ''domain-id'' exCompleteRequest =
          (Some ErrActivityTaskNotFound, [LoadWorkflowExecution 0])"
    and c2: "committedStates (snd (RespondActivityTaskCompleted (exActivityEnv ?token) ''domain-id''
          exCompleteRequest)) = []"
    by blast+
  from h r s g m(2) c1 c2 show ?thesis by (intro conjI)
qed

text \<open>
  The claim as stated fails for a token without a schedule id. When the request names the
  activity by its id with schedule attempt 0 while the activity is on attempt 2, the call
  succeeds and commits the completion event. When the request names an activity that is not
  pending, the call fails with BadRequest, not with ActivityTaskNotFound.
\<close>

theorem C5_attempt_by_activity_id_counterexample:
  "ttScheduleAttempt (exToken\<lparr>ttScheduleID := EmptyEventID, ttActivityID := ''activity-1'', ttScheduleAttempt := 0\<rparr>)
     \<noteq> sint (aiAttempt exActivity) \<and>
   GetActivityInfo exWithActivity 5 = Some exActivity \<and>
   fst (RespondActivityTaskCompleted
          (exActivityEnv (exToken\<lparr>ttScheduleID := EmptyEventID, ttActivityID := ''activity-1'',
                                   ttScheduleAttempt := 0\<rparr>))
          ''domain-id'' exCompleteRequest) = None \<and>
   map msHistory (committedStates (snd (RespondActivityTaskCompleted
          (exActivityEnv (exToken\<lparr>ttScheduleID := EmptyEventID, ttActivityID := ''activity-1'',
                                   ttScheduleAttempt := 0\<rparr>))
          ''domain-id'' exCompleteRequest))) =
     [[WorkflowExecutionStartedEvent ''run-1'' ''request-1'', DecisionTaskScheduledEvent,
       ActivityTaskCompletedEvent 5 6 [1, 2, 3]]] \<and>
   IsWorkflowExecutionRunning exWithActivity \<and>
   GetActivityByActivityID exWithActivity ''activity-9'' = None \<and>
   RespondActivityTaskCompleted
     (exActivityEnv (exToken\<lparr>ttScheduleID := EmptyEventID, ttActivityID := ''activity-9''\<rparr>))
     ''domain-id'' exCompleteRequest =
     (Some (BadRequestError ''Cannot locate Activity ScheduleID''), [LoadWorkflowExecution 0])"
  by (simp add: activity_ex_defs ex_defs activity_defs state_codes RespondActivityTaskCompleted_def
      UpdateWithAction_def respondActivityTaskCompletedAction_def AddActivityTaskCompletedEvent_def
      appendEvent_def committedStates_def resultError_def Let_def)

subsection \<open>C9: the heartbeat\<close>

lemma activityTaskChecks_Inr:
  assumes "activityTaskChecks token ms = Inr (scheduleID, ai)"
  shows "IsWorkflowExecutionRunning ms" and "tokenScheduleID token ms = Inr scheduleID"
    and "GetActivityInfo ms scheduleID = Some ai" and "aiStartedID ai \<noteq> EmptyEventID"
  using assms
  by (auto simp: activityTaskChecks_def split: if_splits sum.splits option.splits)

lemma committedStates_simps:
  "committedStates [] = []"
  "committedStates (LoadWorkflowExecution k # effs) = committedStates effs"
  "committedStates (ClearCache # effs) = committedStates effs"
  "committedStates (UpdateWorkflowExecutionAsActive ms r # effs) = ms # committedStates effs"
  by (simp_all add: committedStates_def)

text \<open>
  What one run of the heartbeat action, on the state loaded at attempt \<open>k\<close>, commits and
  yields.
\<close>

lemma heartbeat_loop:
  "UpdateWithActionLoop env False (recordActivityTaskHeartbeatAction env token request) a = (r, effs) \<Longrightarrow>
     (\<forall>ms' \<in> set (committedStates effs).
        \<exists>k ms scheduleID ai.
          aeLoadWorkflowExecution env k = Inr ms \<and> activityTaskChecks token ms = Inr (scheduleID, ai) \<and>
          ms' = UpdateActivityProgress ms scheduleID ai (hbDetails request) (aeNow env)) \<and>
     (\<forall>c. r = Inr c \<longrightarrow>
        (\<exists>k ms scheduleID ai.
           aeLoadWorkflowExecution env k = Inr ms \<and> activityTaskChecks token ms = Inr (scheduleID, ai) \<and>
           c = aiCancelRequested ai \<and> effs \<noteq> [] \<and>
           last effs = UpdateWorkflowExecutionAsActive
                         (UpdateActivityProgress ms scheduleID ai (hbDetails request) (aeNow env)) None))"
proof (induction env False "recordActivityTaskHeartbeatAction env token request" a arbitrary: r effs
    rule: UpdateWithActionLoop.induct)
  case (1 env attempt)
  let ?action = "recordActivityTaskHeartbeatAction env token request"
  show ?case
  proof (cases "attempt < aeConditionalRetryCount env")
    case False
    with "1.prems" show ?thesis by (auto simp: committedStates_simps)
  next
    case lt: True
    show ?thesis
    proof (cases "aeLoadWorkflowExecution env attempt")
      case (Inl err)
      with "1.prems" lt show ?thesis by (auto simp: committedStates_simps)
    next
      case (Inr ms)
      show ?thesis
      proof (cases "activityTaskChecks token ms")
        case chk: (Inl err)
        then have act: "?action ms = Inl err"
          by (simp add: recordActivityTaskHeartbeatAction_def)
        show ?thesis
        proof (cases "err = ErrStaleState")
          case True
          obtain r' effs' where rec: "UpdateWithActionLoop env False ?action (Suc attempt) = (r', effs')"
            by (cases "UpdateWithActionLoop env False ?action (Suc attempt)") auto
          have lt': "\<not> \<not> attempt < aeConditionalRetryCount env" using lt by simp
          note ih = "1.hyps"(1) [OF lt' Inr act True rec]
          from "1.prems" lt Inr act True rec
          have "r = r'" and "effs = [LoadWorkflowExecution attempt, ClearCache] @ effs'"
            by simp_all
          with ih show ?thesis
            by (auto simp: committedStates_simps)
        next
          case False
          with "1.prems" lt Inr act show ?thesis by (auto simp: committedStates_simps)
        qed
      next
        case chk: (Inr pr)
        obtain scheduleID ai where pr: "pr = (scheduleID, ai)" by (cases pr)
        let ?ms' = "UpdateActivityProgress ms scheduleID ai (hbDetails request) (aeNow env)"
        have act: "?action ms = Inr (?ms', aiCancelRequested ai)"
          using chk pr by (simp add: recordActivityTaskHeartbeatAction_def Let_def)
        show ?thesis
        proof (cases "aeUpdateWorkflowExecutionAsActive env attempt")
          case None
          with "1.prems" lt Inr act
          have "r = Inr (aiCancelRequested ai)"
            and "effs = [LoadWorkflowExecution attempt, UpdateWorkflowExecutionAsActive ?ms' None]"
            by simp_all
          with Inr chk pr show ?thesis
            by (auto simp: committedStates_simps)
        next
          case (Some updateErr)
          show ?thesis
          proof (cases "updateErr = ErrConflict")
            case True
            obtain r' effs' where rec: "UpdateWithActionLoop env False ?action (Suc attempt) = (r', effs')"
              by (cases "UpdateWithActionLoop env False ?action (Suc attempt)") auto
            have lt': "\<not> \<not> attempt < aeConditionalRetryCount env" using lt by simp
            have pr': "(?ms', aiCancelRequested ai) = (?ms', aiCancelRequested ai)" by simp
            have ms'': "(if False \<and> \<not> msHasPendingDecision ?ms' then AddDecisionTaskScheduledEvent ?ms' else ?ms') = ?ms'"
              by simp
            note ih = "1.hyps"(2) [OF lt' Inr act pr' ms'' [symmetric] Some True rec]
            from "1.prems" lt Inr act Some True rec
            have "r = r'"
              and "effs = [LoadWorkflowExecution attempt,
                           UpdateWorkflowExecutionAsActive ?ms' (Some updateErr)] @ effs'"
              by simp_all
            with ih Inr chk pr show ?thesis
              by (auto simp: committedStates_simps)
          next
            case False
            with "1.prems" lt Inr act Some
            have "r = Inl updateErr"
              and "effs = [LoadWorkflowExecution attempt,
                           UpdateWorkflowExecutionAsActive ?ms' (Some updateErr)]"
              by simp_all
            with Inr chk pr show ?thesis
              by (auto simp: committedStates_simps)
          qed
        qed
      qed
    qed
  qed
qed

text \<open>
  C9. RecordActivityTaskHeartbeat never changes the workflow state or appends a history
  event: every mutable state it hands to the store has the workflow state, close status,
  history and next-event id of the state it was loaded as. For every successful heartbeat,
  the state it was applied to runs and holds the activity as started, the committed state
  is that state with only the activity's progress details and last-heartbeat time updated,
  and the response's CancelRequested is the activity's cancel-requested flag in that state.
\<close>

theorem C9_heartbeat_only_updates_progress:
  "(\<forall>ms' \<in> set (committedStates (snd (RecordActivityTaskHeartbeat env domainUUID request))).
      \<exists>attempt ms.
        aeLoadWorkflowExecution env attempt = Inr ms \<and>
        msState ms' = msState ms \<and> msCloseStatus ms' = msCloseStatus ms \<and>
        msHistory ms' = msHistory ms \<and> msNextEventID ms' = msNextEventID ms) \<and>
   (\<forall>cancelRequested.
      fst (RecordActivityTaskHeartbeat env domainUUID request) = Inr cancelRequested \<longrightarrow>
      (\<exists>attempt ms scheduleID ai.
         aeLoadWorkflowExecution env attempt = Inr ms \<and>
         IsWorkflowExecutionRunning ms \<and> GetActivityInfo ms scheduleID = Some ai \<and>
         aiStartedID ai \<noteq> EmptyEventID \<and>
         cancelRequested = aiCancelRequested ai \<and>
         last (snd (RecordActivityTaskHeartbeat env domainUUID request)) =
           UpdateWorkflowExecutionAsActive
             (ms\<lparr>msPendingActivities :=
                   (msPendingActivities ms)(scheduleID \<mapsto>
                      ai\<lparr>aiDetails := hbDetails request, aiLastHeartBeatUpdatedTime := aeNow env\<rparr>)\<rparr>)
             None))"
proof (cases "aeGetActiveDomainByID env domainUUID")
  case (Inl err)
  then show ?thesis
    by (simp add: RecordActivityTaskHeartbeat_def committedStates_simps)
next
  case de: (Inr domainEntry)
  show ?thesis
  proof (cases "aeDeserialize env (hbTaskToken request)")
    case (Inl err0)
    with de show ?thesis
      by (simp add: RecordActivityTaskHeartbeat_def committedStates_simps)
  next
    case (Inr token)
    obtain r effs where loop:
      "UpdateWithActionLoop env False (recordActivityTaskHeartbeatAction env token request) 0 = (r, effs)"
      by (cases "UpdateWithActionLoop env False (recordActivityTaskHeartbeatAction env token request) 0") auto
    with de Inr have R: "RecordActivityTaskHeartbeat env domainUUID request = (r, effs)"
      by (simp add: RecordActivityTaskHeartbeat_def UpdateWithAction_def)
    note hl = heartbeat_loop [OF loop]
    have part1: "\<forall>ms' \<in> set (committedStates effs).
        \<exists>attempt ms.
          aeLoadWorkflowExecution env attempt = Inr ms \<and>
          msState ms' = msState ms \<and> msCloseStatus ms' = msCloseStatus ms \<and>
          msHistory ms' = msHistory ms \<and> msNextEventID ms' = msNextEventID ms"
    proof
      fix ms' assume "ms' \<in> set (committedStates effs)"
      with hl obtain k ms scheduleID ai where
        "aeLoadWorkflowExecution env k = Inr ms"
        "ms' = UpdateActivityProgress ms scheduleID ai (hbDetails request) (aeNow env)"
        by blast
      then show "\<exists>attempt ms.
          aeLoadWorkflowExecution env attempt = Inr ms \<and>
          msState ms' = msState ms \<and> msCloseStatus ms' = msCloseStatus ms \<and>
          msHistory ms' = msHistory ms \<and> msNextEventID ms' = msNextEventID ms"
        by (intro exI [of _ k] exI [of _ ms]) (simp add: UpdateActivityProgress_def)
    qed
    have part2: "\<exists>attempt ms scheduleID ai.
         aeLoadWorkflowExecution env attempt = Inr ms \<and>
         IsWorkflowExecutionRunning ms \<and> GetActivityInfo ms scheduleID = Some ai \<and>
         aiStartedID ai \<noteq> EmptyEventID \<and>
         c = aiCancelRequested ai \<and>
         last effs =
           UpdateWorkflowExecutionAsActive
             (ms\<lparr>msPendingActivities :=
                   (msPendingActivities ms)(scheduleID \<mapsto>
                      ai\<lparr>aiDetails := hbDetails request, aiLastHeartBeatUpdatedTime := aeNow env\<rparr>)\<rparr>)
             None" if "r = Inr c" for c
    proof -
      from hl that obtain k ms scheduleID ai where
        ld: "aeLoadWorkflowExecution env k = Inr ms"
        and chk: "activityTaskChecks token ms = Inr (scheduleID, ai)"
        and c: "c = aiCancelRequested ai"
        and lst: "last effs = UpdateWorkflowExecutionAsActive
                    (UpdateActivityProgress ms scheduleID ai (hbDetails request) (aeNow env)) None"
        by blast
      from activityTaskChecks_Inr [OF chk] ld c lst show ?thesis
        by (intro exI [of _ k] exI [of _ ms] exI [of _ scheduleID] exI [of _ ai])
          (simp add: UpdateActivityProgress_def)
    qed
    from part1 part2 show ?thesis
      unfolding R by simp
  qed
qed

text \<open>
  The theorem at the example run: the heartbeat on the started activity at schedule id 5
  succeeds, reports the cancellation that was requested, and commits the run with only the
  activity's details and last-heartbeat time changed.
\<close>

theorem C9_heartbeat_only_updates_progress_witness:
  "RecordActivityTaskHeartbeat (exActivityEnv exToken) ''domain-id'' exHeartbeatRequest =
     (Inr True,
      [LoadWorkflowExecution 0,
       UpdateWorkflowExecutionAsActive
         (exWithActivity\<lparr>msPendingActivities :=
            [5 \<mapsto> exActivity\<lparr>aiDetails := [4, 5], aiLastHeartBeatUpdatedTime := 2000\<rparr>]\<rparr>) None]) \<and>
   (\<exists>attempt ms scheduleID ai.
      aeLoadWorkflowExecution (exActivityEnv exToken) attempt = Inr ms \<and>
      IsWorkflowExecutionRunning ms \<and> GetActivityInfo ms scheduleID = Some ai \<and>
      aiStartedID ai \<noteq> EmptyEventID \<and>
      True = aiCancelRequested ai \<and>
      last (snd (RecordActivityTaskHeartbeat (exActivityEnv exToken) ''domain-id'' exHeartbeatRequest)) =
        UpdateWorkflowExecutionAsActive
          (ms\<lparr>msPendingActivities :=
                (msPendingActivities ms)(scheduleID \<mapsto>
                   ai\<lparr>aiDetails := hbDetails exHeartbeatRequest,
                      aiLastHeartBeatUpdatedTime := aeNow (exActivityEnv exToken)\<rparr>)\<rparr>)
          None)"
proof -
  have e: "RecordActivityTaskHeartbeat (exActivityEnv exToken) ''domain-id'' exHeartbeatRequest =
     (Inr True,
      [LoadWorkflowExecution 0,
       UpdateWorkflowExecutionAsActive
         (exWithActivity\<lparr>msPendingActivities :=
            [5 \<mapsto> exActivity\<lparr>aiDetails := [4, 5], aiLastHeartBeatUpdatedTime := 2000\<rparr>]\<rparr>) None])"
    by (simp add: activity_ex_defs ex_defs activity_defs state_codes RecordActivityTaskHeartbeat_def
        UpdateWithAction_def recordActivityTaskHeartbeatAction_def UpdateActivityProgress_def Let_def)
  then have f: "fst (RecordActivityTaskHeartbeat (exActivityEnv exToken) ''domain-id'' exHeartbeatRequest) = Inr True"
    by simp
  from C9_heartbeat_only_updates_progress [of "exActivityEnv exToken" "''domain-id''" exHeartbeatRequest] f
  have "\<exists>attempt ms scheduleID ai.
      aeLoadWorkflowExecution (exActivityEnv exToken) attempt = Inr ms \<and>
      IsWorkflowExecutionRunning ms \<and> GetActivityInfo ms scheduleID = Some ai \<and>
      aiStartedID ai \<noteq> EmptyEventID \<and>
      True = aiCancelRequested ai \<and>
      last (snd (RecordActivityTaskHeartbeat (exActivityEnv exToken) ''domain-id'' exHeartbeatRequest)) =
        UpdateWorkflowExecutionAsActive
          (ms\<lparr>msPendingActivities :=
                (msPendingActivities ms)(scheduleID \<mapsto>
                   ai\<lparr>aiDetails := hbDetails exHeartbeatRequest,
                      aiLastHeartBeatUpdatedTime := aeNow (exActivityEnv exToken)\<rparr>)\<rparr>)
          None"
    by blast
  with e show ?thesis by blast
qed

section \<open>Theorems: reading the mutable state\<close>

lemmas read_ex_defs = exReadState_def exReadEnv_def exPollEnv_def exPollRequest_def

lemma pollReads_response:
  assumes "pollReads env request ms current"
  shows "getMutableState (peRead env) 0 =
           Inr \<lparr> rsRunID = msRunID ms, rsNextEventID = msNextEventID ms,
                 rsLastFirstEventID = msLastFirstEventID ms,
                 rsPreviousStartedEventID = msPreviousStartedEventID ms,
                 rsIsWorkflowRunning = IsWorkflowExecutionRunning ms,
                 rsCurrentBranchToken = current,
                 rsWorkflowState = msState ms, rsWorkflowCloseState = msCloseStatus ms,
                 rsIsStickyTaskListEnabled = msIsStickyTaskListEnabled ms,
                 rsExecutionInfo = msExecutionInfo ms \<rparr>"
  using assms by (simp add: pollReads_def getMutableState_def)

subsection \<open>C7: GetMutableState, branch token and immediate return\<close>

text \<open>
  C7. For every GetMutableState call that passes the check of the domain id and reads the
  run's mutable state \<open>ms\<close> with current branch token \<open>current\<close>: if the caller supplies a
  branch token whose bytes differ from \<open>current\<close> the call fails with CurrentBranchChanged
  carrying \<open>current\<close>; and if the caller supplies no token or the current one, and the
  expected next-event id (the request's, with 0 read as the first event id, as the code's
  \<^verbatim>\<open>expectedNextEventID\<close>) is less than the next-event id of \<open>ms\<close>, or \<open>ms\<close> is not
  running, the call returns the snapshot of \<open>ms\<close> at once, with no subscription to the
  history-event notifier.
\<close>

theorem C7_branch_token_and_immediate_return:
  assumes reads: "pollReads env request ms current"
  shows "(\<forall>token. gmCurrentBranchToken request = Some token \<and> \<not> bytes_Equal (Some token) current \<longrightarrow>
            (\<exists>msg. getMutableStateOrPolling env request =
                     (Some (Inl (CurrentBranchChangedError msg current)), []))) \<and>
         ((gmCurrentBranchToken request = None \<or> bytes_Equal (gmCurrentBranchToken request) current) \<and>
          (expectedNextEventID request < msNextEventID ms \<or> \<not> IsWorkflowExecutionRunning ms) \<longrightarrow>
            (\<exists>snapshot.
               getMutableState (peRead env) 0 = Inr snapshot \<and>
               rsNextEventID snapshot = msNextEventID ms \<and>
               rsIsWorkflowRunning snapshot = IsWorkflowExecutionRunning ms \<and>
               rsCurrentBranchToken snapshot = current \<and>
               getMutableStateOrPolling env request = (Some (Inr snapshot), [])))"
proof -
  note resp = pollReads_response [OF reads]
  from reads have valid: "ValidateDomainUUID (peUuidParses env) (gmDomainUUID request) = None"
    by (simp add: pollReads_def)
  have p1: "\<exists>msg. getMutableStateOrPolling env request =
                     (Some (Inl (CurrentBranchChangedError msg current)), [])"
    if "gmCurrentBranchToken request = Some token" and "\<not> bytes_Equal (Some token) current" for token
    using that
    by (simp add: getMutableStateOrPolling_def valid resp Let_def)
  have p2: "getMutableStateOrPolling env request =
      (Some (Inr \<lparr> rsRunID = msRunID ms, rsNextEventID = msNextEventID ms,
                 rsLastFirstEventID = msLastFirstEventID ms,
                 rsPreviousStartedEventID = msPreviousStartedEventID ms,
                 rsIsWorkflowRunning = IsWorkflowExecutionRunning ms,
                 rsCurrentBranchToken = current,
                 rsWorkflowState = msState ms, rsWorkflowCloseState = msCloseStatus ms,
                 rsIsStickyTaskListEnabled = msIsStickyTaskListEnabled ms,
                 rsExecutionInfo = msExecutionInfo ms \<rparr>), [])"
    if "gmCurrentBranchToken request = None \<or> bytes_Equal (gmCurrentBranchToken request) current"
      and "expectedNextEventID request < msNextEventID ms \<or> \<not> IsWorkflowExecutionRunning ms"
    using that
    by (auto simp: getMutableStateOrPolling_def valid resp Let_def bytes_Equal_def split: option.splits)
  show ?thesis
    using p1 p2 by (auto simp: resp)
qed

text \<open>
  The theorem at the example run (next-event id 8, branch token \<open>[1]\<close>): a call that
  expects next-event id 7 and supplies the current token returns at once; a call that
  supplies the token \<open>[2]\<close> fails with CurrentBranchChanged.
\<close>

theorem C7_branch_token_and_immediate_return_witness:
  "pollReads exPollEnv exPollRequest exReadState [1] \<and>
   expectedNextEventID exPollRequest < msNextEventID exReadState \<and>
   (\<exists>snapshot. getMutableState (peRead exPollEnv) 0 = Inr snapshot \<and>
                rsNextEventID snapshot = 8 \<and>
                getMutableStateOrPolling exPollEnv exPollRequest = (Some (Inr snapshot), [])) \<and>
   pollReads exPollEnv (exPollRequest\<lparr>gmCurrentBranchToken := Some [2]\<rparr>) exReadState [1] \<and>
   (\<exists>msg. getMutableStateOrPolling exPollEnv (exPollRequest\<lparr>gmCurrentBranchToken := Some [2]\<rparr>) =
            (Some (Inl (CurrentBranchChangedError msg [1])), []))"
proof -
  have h1: "pollReads exPollEnv exPollRequest exReadState [1]"
    by (simp add: pollReads_def read_ex_defs ValidateDomainUUID_def)
  have h2: "pollReads exPollEnv (exPollRequest\<lparr>gmCurrentBranchToken := Some [2]\<rparr>) exReadState [1]"
    by (simp add: pollReads_def read_ex_defs ValidateDomainUUID_def)
  have e: "expectedNextEventID exPollRequest < msNextEventID exReadState"
    by (simp add: read_ex_defs activity_ex_defs ex_defs expectedNextEventID_def)
  have t1: "bytes_Equal (gmCurrentBranchToken exPollRequest) [1]"
    by (simp add: read_ex_defs bytes_Equal_def)
  have t2: "gmCurrentBranchToken (exPollRequest\<lparr>gmCurrentBranchToken := Some [2]\<rparr>) = Some [2]"
    and t3: "\<not> bytes_Equal (Some [2]) [1]"
    by (simp_all add: bytes_Equal_def)
  have n: "msNextEventID exReadState = 8"
    by (simp add: read_ex_defs activity_ex_defs)
  from C7_branch_token_and_immediate_return [OF h1] e t1 n
  have a: "\<exists>snapshot. getMutableState (peRead exPollEnv) 0 = Inr snapshot \<and>
                rsNextEventID snapshot = 8 \<and>
                getMutableStateOrPolling exPollEnv exPollRequest = (Some (Inr snapshot), [])"
    by auto
  from C7_branch_token_and_immediate_return [OF h2] t2 t3
  have b: "\<exists>msg. getMutableStateOrPolling exPollEnv (exPollRequest\<lparr>gmCurrentBranchToken := Some [2]\<rparr>) =
            (Some (Inl (CurrentBranchChangedError msg [1])), [])"
    by blast
  from h1 h2 e a b show ?thesis by blast
qed

section \<open>Theorems: query dispatch\<close>











subsection \<open>C6: direct or buffered\<close>




section \<open>Theorems: domain failover callback\<close>

lemmas failover_ex_defs = exFailoverEnv_def exFailedAway_def exLocal_def

lemma sorted_last_Max:
  fixes ys :: "int list"
  assumes ne: "ys \<noteq> []" and srt: "sorted ys"
  shows "last ys = Max (set ys)"
proof -
  have dec: "ys = butlast ys @ [last ys]"
    using ne by simp
  have "sorted (butlast ys @ [last ys])"
    using srt dec by simp
  then have le: "\<forall>y \<in> set (butlast ys). y \<le> last ys"
    by (simp add: sorted_append)
  have "\<forall>y \<in> set ys. y \<le> last ys"
  proof
    fix y assume "y \<in> set ys"
    then have "y \<in> set (butlast ys @ [last ys])" using dec by simp
    then show "y \<le> last ys" using le by auto
  qed
  moreover have "last ys \<in> set ys" using ne by simp
  ultimately show ?thesis
    by (intro Max_eqI [symmetric]) auto
qed

lemma last_is_Max:
  fixes f :: "'a \<Rightarrow> int"
  assumes "xs \<noteq> []" and "sorted (map f xs)"
  shows "f (last xs) = Max (set (map f xs))"
  using sorted_last_Max [of "map f xs"] assms by (simp add: last_map)

text \<open>
  The condition of the second loop is the spec's: a global domain failing away from this
  cluster whose previous failover version maps to this cluster.
\<close>

lemma needsFailoverMarker_spec:
  "needsFailoverMarker env v d \<longleftrightarrow>
     deIsGlobalDomain d \<and> spec_failingAway env v d \<and> spec_previousVersionHere env d"
  by (auto simp: needsFailoverMarker_def spec_failingAway_def spec_previousVersionHere_def)

lemma failoverMarkerTasks_spec:
  "failoverMarkerTasks env v nextDomains = spec_failoverMarkers env v nextDomains"
  by (simp add: failoverMarkerTasks_def spec_failoverMarkers_def needsFailoverMarker_spec cong: filter_cong)

text \<open>Adding 1 in \<^verbatim>\<open>int64\<close> is adding 1 below the largest \<^verbatim>\<open>int64\<close>.\<close>

lemma wrap_int64_succ:
  assumes "- (2 ^ 63) \<le> v + 1" and "v < 2 ^ 63 - 1"
  shows "wrap_int64 (v + 1) = v + 1"
proof -
  have "0 \<le> v + 1 + 2 ^ 63" and "v + 1 + 2 ^ 63 < (2 ^ 64 :: int)"
    using assms by simp_all
  then have "(v + 1 + 2 ^ 63) mod 2 ^ 64 = v + 1 + 2 ^ 63"
    by (rule mod_pos_pos_trivial)
  then show ?thesis by (simp add: wrap_int64_def)
qed

subsection \<open>C8: failover markers and the shard's domain-notification version\<close>

text \<open>
  C8. In the domain-failover commit callback, for every non-empty batch of changed domains,
  handed over by the domain cache in ascending order of notification version:
  failover-marker tasks (failover version and domain id) are built exactly for the global
  domains of the batch failing away from this cluster whose previous failover version maps
  to this cluster; they are submitted to the replication queue in one call when there is at
  least one, and if that call fails the callback returns without advancing the shard's
  domain-notification version; otherwise the version is updated to the maximum over the
  batch's notification versions plus 1. The sum is an \<^verbatim>\<open>int64\<close> one; it is the
  mathematical one for every maximum below the largest \<^verbatim>\<open>int64\<close>. The code reads the
  maximum off the last domain of the batch.
\<close>

theorem C8_failover_markers_and_version:
  assumes ne: "nextDomains \<noteq> []"
    and ordered: "sorted (map deNotificationVersion nextDomains)"
  shows "let tasks = spec_failoverMarkers env shardVersion nextDomains;
             highest = Max (set (map deNotificationVersion nextDomains));
             newVersion = fst (failoverCommitCallback env shardVersion prevDomains nextDomains);
             effs = snd (failoverCommitCallback env shardVersion prevDomains nextDomains)
         in (\<forall>ts r. ReplicateFailoverMarkers ts r \<in> set effs \<longrightarrow>
               ts = tasks \<and> r = feReplicateFailoverMarkers env tasks) \<and>
            (tasks \<noteq> [] \<longleftrightarrow> ReplicateFailoverMarkers tasks (feReplicateFailoverMarkers env tasks) \<in> set effs) \<and>
            (tasks \<noteq> [] \<and> feReplicateFailoverMarkers env tasks \<noteq> None \<longrightarrow>
               newVersion = shardVersion \<and> (\<forall>u. UpdateDomainNotificationVersion u \<notin> set effs)) \<and>
            (tasks = [] \<or> feReplicateFailoverMarkers env tasks = None \<longrightarrow>
               highest = deNotificationVersion (last nextDomains) \<and>
               newVersion = wrap_int64 (highest + 1) \<and>
               UpdateDomainNotificationVersion newVersion \<in> set effs \<and>
               (- (2 ^ 63) \<le> highest + 1 \<and> highest < 2 ^ 63 - 1 \<longrightarrow> newVersion = highest + 1))"
proof -
  let ?tasks = "failoverMarkerTasks env shardVersion nextDomains"
  let ?highest = "Max (set (map deNotificationVersion nextDomains))"
  note tasks = failoverMarkerTasks_spec [of env shardVersion nextDomains]
  have mx: "deNotificationVersion (last nextDomains) = ?highest"
    by (rule last_is_Max [OF ne ordered])
  have succ: "- (2 ^ 63) \<le> ?highest + 1 \<and> ?highest < 2 ^ 63 - 1 \<longrightarrow>
      wrap_int64 (?highest + 1) = ?highest + 1"
    using wrap_int64_succ [of ?highest] by simp
  show ?thesis
  proof (cases "?tasks = []")
    case True
    with ne succ show ?thesis
      unfolding tasks [symmetric] Let_def mx [symmetric]
      by (auto simp: failoverCommitCallback_def Let_def)
  next
    case False
    show ?thesis
    proof (cases "feReplicateFailoverMarkers env ?tasks")
      case None
      with False ne succ show ?thesis
        unfolding tasks [symmetric] Let_def mx [symmetric]
        by (auto simp: failoverCommitCallback_def Let_def)
    next
      case (Some err)
      with False ne show ?thesis
        unfolding tasks [symmetric] Let_def
        by (auto simp: failoverCommitCallback_def Let_def)
    qed
  qed
qed

text \<open>
  The theorem at the example batch (\<open>d2\<close> with notification version 3, then \<open>d1\<close> with
  7): one marker is submitted, for \<open>d1\<close>, and the shard's version becomes 8, the maximum
  plus 1.
\<close>

theorem C8_failover_markers_and_version_witness:
  "[exLocal, exFailedAway] \<noteq> [] \<and>
   sorted (map deNotificationVersion [exLocal, exFailedAway]) \<and>
   spec_failoverMarkers exFailoverEnv 0 [exLocal, exFailedAway] = [\<lparr> fmVersion = 11, fmDomainID = ''d1'' \<rparr>] \<and>
   Max (set (map deNotificationVersion [exLocal, exFailedAway])) = 7 \<and>
   fst (failoverCommitCallback exFailoverEnv 0 [] [exLocal, exFailedAway]) = 8 \<and>
   ReplicateFailoverMarkers [\<lparr> fmVersion = 11, fmDomainID = ''d1'' \<rparr>] None
     \<in> set (snd (failoverCommitCallback exFailoverEnv 0 [] [exLocal, exFailedAway])) \<and>
   UpdateDomainNotificationVersion 8
     \<in> set (snd (failoverCommitCallback exFailoverEnv 0 [] [exLocal, exFailedAway]))"
proof -
  have ne: "[exLocal, exFailedAway] \<noteq> []" by simp
  have srt: "sorted (map deNotificationVersion [exLocal, exFailedAway])"
    by (simp add: failover_ex_defs ex_defs)
  have ok: "feReplicateFailoverMarkers exFailoverEnv ts = None" for ts
    by (simp add: failover_ex_defs)
  have tasks: "spec_failoverMarkers exFailoverEnv 0 [exLocal, exFailedAway] =
      [\<lparr> fmVersion = 11, fmDomainID = ''d1'' \<rparr>]"
    by (simp add: spec_failoverMarkers_def spec_failingAway_def spec_previousVersionHere_def
        failover_ex_defs ex_defs InitialPreviousFailoverVersion_def)
  have mx: "Max (set (map deNotificationVersion [exLocal, exFailedAway])) = 7"
    by (simp add: failover_ex_defs ex_defs)
  from C8_failover_markers_and_version [OF ne srt, of exFailoverEnv 0 "[]"]
  have "fst (failoverCommitCallback exFailoverEnv 0 [] [exLocal, exFailedAway]) = 8 \<and>
        ReplicateFailoverMarkers [\<lparr> fmVersion = 11, fmDomainID = ''d1'' \<rparr>] None
          \<in> set (snd (failoverCommitCallback exFailoverEnv 0 [] [exLocal, exFailedAway])) \<and>
        UpdateDomainNotificationVersion 8
          \<in> set (snd (failoverCommitCallback exFailoverEnv 0 [] [exLocal, exFailedAway]))"
    unfolding Let_def tasks mx ok by (auto simp: wrap_int64_def)
  with ne srt tasks mx show ?thesis by simp
qed

end
